theory Spec2Isabelle
  imports Complex_Main "HOL-Library.Sublist" "HOL-Library.Multiset"
begin

section \<open>Python string primitives\<close>

text \<open>
  Strings are modelled as lists of 8-bit characters, and the model covers ASCII text:
  \<open>py_lower\<close> maps \<open>A..Z\<close> to \<open>a..z\<close> and leaves every other character alone, as
  \<open>str.lower()\<close> does on ASCII text. All keyword tables of the program are ASCII. The
  letters outside ASCII that \<open>str.lower()\<close> maps as well (the Kelvin sign to \<open>k\<close>, for
  one) are not modelled.
\<close>

definition lower_char :: "char \<Rightarrow> char" where
  "lower_char c =
     (case map_of (zip ''ABCDEFGHIJKLMNOPQRSTUVWXYZ'' ''abcdefghijklmnopqrstuvwxyz'') c of
        Some l \<Rightarrow> l
      | None \<Rightarrow> c)"

definition py_lower :: "string \<Rightarrow> string" where
  "py_lower s = map lower_char s"

fun starts_with :: "string \<Rightarrow> string \<Rightarrow> bool" where
  "starts_with [] s = True"
| "starts_with (c # cs) [] = False"
| "starts_with (c # cs) (d # ds) = (c = d \<and> starts_with cs ds)"

text \<open>\<open>str_in w s\<close> is Python's \<open>w in s\<close> on strings: \<open>w\<close> occurs as a contiguous piece of \<open>s\<close>.\<close>

fun str_in :: "string \<Rightarrow> string \<Rightarrow> bool" where
  "str_in w [] = (w = [])"
| "str_in w (d # ds) = (starts_with w (d # ds) \<or> str_in w ds)"

text \<open>\<open>any_in ws s\<close> is \<open>any(w in s for w in ws)\<close>.\<close>

definition any_in :: "string list \<Rightarrow> string \<Rightarrow> bool" where
  "any_in ws s = list_ex (\<lambda>w. str_in w s) ws"

text \<open>\<open>join sep xs\<close> is \<open>sep.join(xs)\<close>.\<close>

fun join :: "string \<Rightarrow> string list \<Rightarrow> string" where
  "join sep [] = []"
| "join sep [x] = x"
| "join sep (x # y # ys) = x @ sep @ join sep (y # ys)"

section \<open>Query contextualizer (query\_faiss.py)\<close>

record problem_type =
  emotional :: bool
  decision :: bool
  relationship :: bool
  career :: bool
  existential :: bool

definition emotional_words :: "string list" where
  "emotional_words = [''afraid'', ''fear'', ''anxious'', ''worried'', ''stressed'',
     ''overwhelmed'', ''panic'', ''nervous'', ''scared'']"

definition decision_words :: "string list" where
  "decision_words = [''should i'', ''confused'', ''don't know'', ''uncertain'',
     ''choice'', ''decide'', ''which'', ''whether'']"

definition relationship_words :: "string list" where
  "relationship_words = [''family'', ''friend'', ''colleague'', ''relationship'',
     ''conflict'', ''argument'', ''partner'', ''spouse'', ''parent'']"

definition career_words :: "string list" where
  "career_words = [''career'', ''job'', ''work'', ''future'', ''path'',
     ''purpose'', ''goal'', ''profession'', ''business'']"

definition existential_words :: "string list" where
  "existential_words = [''meaning'', ''why'', ''life'', ''death'', ''purpose of'',
     ''exist'', ''point of'']"

definition categorize_problem :: "string \<Rightarrow> problem_type" where
  "categorize_problem query =
     (let query_lower = py_lower query in
      \<lparr> emotional = any_in emotional_words query_lower,
        decision = any_in decision_words query_lower,
        relationship = any_in relationship_words query_lower,
        career = any_in career_words query_lower,
        existential = any_in existential_words query_lower \<rparr>)"

definition enhance_query_contextual :: "string \<Rightarrow> string" where
  "enhance_query_contextual query =
     (let problem_type = categorize_problem query;
          base = ''Practical life guidance: '' @ query;
          contexts = [];
          contexts = (if emotional problem_type
                      then contexts @ [''managing fear and anxiety''] else contexts);
          contexts = (if decision problem_type
                      then contexts @ [''making clear decisions''] else contexts);
          contexts = (if career problem_type
                      then contexts @ [''finding purpose and direction''] else contexts);
          contexts = (if relationship problem_type
                      then contexts @ [''handling interpersonal challenges''] else contexts);
          contexts = (if existential problem_type
                      then contexts @ [''understanding life's meaning''] else contexts)
      in if contexts \<noteq> [] then base @ ''. Focus on: '' @ join '', '' contexts else base)"

subsection \<open>The enhancement as the specification words it\<close>

datatype category = Emotional | Decision | Career | Relationship | Existential

definition category_order :: "category list" where
  "category_order = [Emotional, Decision, Career, Relationship, Existential]"

fun category_true :: "problem_type \<Rightarrow> category \<Rightarrow> bool" where
  "category_true p Emotional = emotional p"
| "category_true p Decision = decision p"
| "category_true p Career = career p"
| "category_true p Relationship = relationship p"
| "category_true p Existential = existential p"

fun focus_phrase :: "category \<Rightarrow> string" where
  "focus_phrase Emotional = ''managing fear and anxiety''"
| "focus_phrase Decision = ''making clear decisions''"
| "focus_phrase Career = ''finding purpose and direction''"
| "focus_phrase Relationship = ''handling interpersonal challenges''"
| "focus_phrase Existential = ''understanding life's meaning''"

definition spec_enhance :: "string \<Rightarrow> string" where
  "spec_enhance query =
     (let phrases = map focus_phrase
                      (filter (category_true (categorize_problem query)) category_order)
      in ''Practical life guidance: '' @ query @
         (if phrases = [] then [] else ''. Focus on: '' @ join '', '' phrases))"

section \<open>Python floats\<close>

text \<open>
  A Python float is a binary64 number. A finite float is modelled by the real number it
  denotes. \<open>round64\<close> rounds a real number to the nearest binary64 number, ties to the even
  significand, with gradual underflow: the unit in the last place of the binade that holds
  \<open>\<bar>x\<bar>\<close> is \<open>2 powi ulp_exponent \<bar>x\<bar>\<close>, and it is \<open>2 powi (- 1074)\<close> below the smallest
  normal number \<open>2 powi (- 1022)\<close>. A product of floats is the rounded exact product
  (\<open>fmul\<close>), and a decimal literal of the source denotes the float nearest to it
  (\<open>py_float\<close>). Infinities and NaN are not represented: the model is that of the code for
  finite scores whose products stay below \<open>2 powi 1024\<close> in magnitude.
\<close>

definition round_half_even :: "real \<Rightarrow> int" where
  "round_half_even m =
     (let f = \<lfloor>m\<rfloor>; d = m - of_int f
      in if d < 1 / 2 then f else if 1 / 2 < d then f + 1 else if even f then f else f + 1)"

text \<open>
  Bisection for the binade of \<open>a\<close>: the result \<open>k\<close> lies in the window of \<open>2 ^ n\<close>
  exponents that starts at \<open>lo\<close>, with \<open>2 powi k \<le> a < 2 powi (k + 1)\<close>.
\<close>

primrec binade_search :: "nat \<Rightarrow> int \<Rightarrow> real \<Rightarrow> int" where
  "binade_search 0 lo a = lo"
| "binade_search (Suc n) lo a =
     (if 2 powi (lo + 2 ^ n) \<le> a then binade_search n (lo + 2 ^ n) a
      else binade_search n lo a)"

definition ulp_exponent :: "real \<Rightarrow> int" where
  "ulp_exponent a =
     (if a < 2 powi (- 1022) then - 1074 else binade_search 11 (- 1022) a - 52)"

definition round64 :: "real \<Rightarrow> real" where
  "round64 x =
     (let e = ulp_exponent \<bar>x\<bar>
      in of_int (round_half_even (x / 2 powi e)) * 2 powi e)"

definition fmul :: "real \<Rightarrow> real \<Rightarrow> real" where
  "fmul x y = round64 (x * y)"

definition py_float :: "real \<Rightarrow> real" where
  "py_float x = round64 x"

section \<open>Data model of the retrieval pipeline\<close>

datatype py_error = IndexError | KeyError

text \<open>The two strings that \<open>context_warning\<close> can hold; Python's \<open>None\<close> is \<open>None\<close>.\<close>

datatype warning = Battlefield | Death_rebirth

text \<open>The dictionary built by \<open>detect_verse_context\<close>.\<close>

record context_flags =
  is_battlefield :: bool
  is_death_focused :: bool
  is_devotional :: bool
  is_cosmic :: bool
  is_universal :: bool

text \<open>
  An entry of the corpus metadata sequence. \<open>themes\<close> and \<open>is_practical\<close> are read with
  \<open>.get\<close> and a default, so they may be absent.
\<close>

record meta_record =
  m_chapter :: int
  m_verse :: int
  m_sanskrit :: string
  m_english :: string
  m_themes :: "string list option"
  m_is_practical :: "bool option"

text \<open>
  A result dictionary. The keys \<open>context_warning\<close>, \<open>relevance_adjusted\<close>,
  \<open>suitability_score\<close> and \<open>context\<close> are added by later stages; \<open>None\<close> in
  \<open>relevance_adjusted\<close>, \<open>suitability_score\<close> and \<open>context_flags\<close> means that the key is
  absent. Scores are floats. The key \<open>chapter\<close> is the field
  \<open>chapter_no\<close>.
\<close>

record verse_dict =
  score :: real
  chapter_no :: int
  verse :: int
  sanskrit :: string
  english :: string
  themes :: "string list"
  is_practical :: bool
  context_warning :: "warning option"
  relevance_adjusted :: "real option"
  suitability_score :: "real option"
  context_flags :: "context_flags option"

text \<open>
  Subscription \<open>xs[i]\<close> of a Python list: an index from \<open>-len(xs)\<close> up to \<open>-1\<close> reads from
  the end of the list, and an index outside \<open>-len(xs) .. len(xs) - 1\<close> raises.
\<close>

definition py_index :: "'a list \<Rightarrow> int \<Rightarrow> py_error + 'a" where
  "py_index xs i =
     (if 0 \<le> i \<and> i < int (length xs) then Inr (xs ! nat i)
      else if i < 0 \<and> - int (length xs) \<le> i then Inr (xs ! nat (int (length xs) + i))
      else Inl IndexError)"

text \<open>
  \<open>xs.sort(key=k, reverse=True)\<close>: descending by key, elements with equal keys keep their
  order.
\<close>

definition sort_desc :: "('a \<Rightarrow> real) \<Rightarrow> 'a list \<Rightarrow> 'a list" where
  "sort_desc key xs = sort_key (\<lambda>x. - key x) xs"

text \<open>
  The same sort where the key function reads a dictionary key with \<open>x['k']\<close>: a missing key
  raises \<open>KeyError\<close>.
\<close>

definition sort_desc_required :: "('a \<Rightarrow> real option) \<Rightarrow> 'a list \<Rightarrow> py_error + 'a list" where
  "sort_desc_required key xs =
     (if list_ex (\<lambda>x. key x = None) xs then Inl KeyError
      else Inr (sort_desc (\<lambda>x. case key x of Some a \<Rightarrow> a | None \<Rightarrow> 0) xs))"

text \<open>\<open>x.get('relevance_adjusted', x['score'])\<close>\<close>

definition adjusted_key :: "verse_dict \<Rightarrow> real" where
  "adjusted_key x = (case relevance_adjusted x of Some a \<Rightarrow> a | None \<Rightarrow> score x)"

section \<open>Context-aware relevance adjuster (query\_faiss.py)\<close>

definition social_words :: "string list" where
  "social_words = [''reputation'', ''respect'', ''judged'', ''what people think'',
     ''embarrassed'', ''ashamed'', ''honor'', ''image'']"

definition confrontation_words :: "string list" where
  "confrontation_words = [''confront'', ''face'', ''stand up'', ''challenge'',
     ''difficult situation'']"

definition battlefield_words :: "string list" where
  "battlefield_words = [''battlefield'', ''warrior'', ''general'', ''war'', ''combat'',
     ''army'', ''weapon'', ''fight'', ''battle'']"

definition death_phrases :: "string list" where
  "death_phrases = [''death is certain'', ''rebirth is inevitable'',
     ''born and die'', ''dissolution'']"

text \<open>The body of the loop over \<open>results\<close>.\<close>

definition adjust_verse :: "bool \<Rightarrow> bool \<Rightarrow> string \<Rightarrow> verse_dict \<Rightarrow> verse_dict" where
  "adjust_verse is_social_concern is_confrontation user_problem v =
     (let text_lower = py_lower (english v);
          is_battlefield = any_in battlefield_words text_lower;
          is_death_focused = any_in death_phrases text_lower
      in if is_battlefield \<and> \<not> (is_social_concern \<or> is_confrontation)
         then v\<lparr>context_warning := Some Battlefield,
                relevance_adjusted := Some (fmul (score v) (py_float 0.75))\<rparr>
         else if is_death_focused \<and> \<not> existential (categorize_problem user_problem)
         then v\<lparr>context_warning := Some Death_rebirth,
                relevance_adjusted := Some (fmul (score v) (py_float 0.80))\<rparr>
         else v\<lparr>context_warning := None, relevance_adjusted := Some (score v)\<rparr>)"

definition filter_context_specific_verses ::
  "verse_dict list \<Rightarrow> string \<Rightarrow> py_error + verse_dict list" where
  "filter_context_specific_verses results user_problem =
     (let query_lower = py_lower user_problem;
          is_social_concern = any_in social_words query_lower;
          is_confrontation = any_in confrontation_words query_lower;
          filtered = map (adjust_verse is_social_concern is_confrontation user_problem) results
      in sort_desc_required relevance_adjusted filtered)"

section \<open>Main search function (query\_faiss.py)\<close>

text \<open>
  The loop that builds the result list from the hits \<open>zip(indices[0], distances[0])\<close> of
  the similarity index.
\<close>

definition make_result :: "meta_record \<Rightarrow> real \<Rightarrow> verse_dict" where
  "make_result m s =
     \<lparr> score = s, chapter_no = m_chapter m, verse = m_verse m, sanskrit = m_sanskrit m,
       english = m_english m,
       themes = (case m_themes m of Some t \<Rightarrow> t | None \<Rightarrow> []),
       is_practical = (case m_is_practical m of Some b \<Rightarrow> b | None \<Rightarrow> False),
       context_warning = None, relevance_adjusted = None,
       suitability_score = None, context_flags = None \<rparr>"

fun build_results :: "meta_record list \<Rightarrow> (int \<times> real) list \<Rightarrow> py_error + verse_dict list" where
  "build_results metadata [] = Inr []"
| "build_results metadata ((idx, s) # hits) =
     (if idx \<ge> int (length metadata) then build_results metadata hits
      else case py_index metadata idx of
             Inl e \<Rightarrow> Inl e
           | Inr m \<Rightarrow> (case build_results metadata hits of
                         Inl e \<Rightarrow> Inl e
                       | Inr rs \<Rightarrow> Inr (make_result m s # rs)))"

text \<open>\<open>r['is_practical'] and not r.get('context_warning')\<close>\<close>

definition ideal :: "verse_dict \<Rightarrow> bool" where
  "ideal r = (is_practical r \<and> context_warning r = None)"

text \<open>The selection of at most five results (the \<open>if filter_practical\<close> block).\<close>

definition select_results :: "bool \<Rightarrow> verse_dict list \<Rightarrow> verse_dict list" where
  "select_results filter_practical results =
     (if filter_practical then
        (let ideal_verses = filter ideal results
         in if length ideal_verses \<ge> 5 then take 5 ideal_verses
            else take 5 (ideal_verses @ filter (\<lambda>r. r \<notin> set ideal_verses) results))
      else take 5 results)"

text \<open>
  \<open>index_search q k\<close> stands for embedding the query text and searching the similarity
  index: the list of pairs (record index, score) it returns. The corpus metadata is the
  loaded \<open>metadata\<close> list.
\<close>

definition search_gita ::
  "(string \<Rightarrow> nat \<Rightarrow> (int \<times> real) list) \<Rightarrow> meta_record list \<Rightarrow> string \<Rightarrow> nat \<Rightarrow> bool
     \<Rightarrow> py_error + verse_dict list" where
  "search_gita index_search metadata query top_k filter_practical =
     (let enhanced_query = enhance_query_contextual query;
          hits = index_search enhanced_query top_k
      in case build_results metadata hits of
           Inl e \<Rightarrow> Inl e
         | Inr results \<Rightarrow>
             (case filter_context_specific_verses results query of
                Inl e \<Rightarrow> Inl e
              | Inr results \<Rightarrow>
                  Inr (sort_desc adjusted_key (select_results filter_practical results))))"

section \<open>Suitability reranking and the confidence gate (llm\_reasoning.py)\<close>

definition battlefield_keywords :: "string list" where
  "battlefield_keywords = [''battlefield'', ''warrior'', ''general'', ''army'', ''combat'',
     ''fight'', ''weapon'', ''arjun'', ''fled'', ''respect for you'']"

definition death_keywords :: "string list" where
  "death_keywords = [''death is certain'', ''rebirth is inevitable'', ''born and die'',
     ''imperishable'', ''unborn'', ''eternal soul'']"

definition devotional_keywords :: "string list" where
  "devotional_keywords = [''surrender unto me'', ''devotees'', ''divine love'', ''worship'',
     ''absorbed in me'', ''refuge in me'']"

definition cosmic_keywords :: "string list" where
  "cosmic_keywords = [''cosmic form'', ''universes'', ''divine form'', ''celestial'',
     ''creation and dissolution'', ''brahma'']"

definition universal_keywords :: "string list" where
  "universal_keywords = [''one who'', ''one whose'', ''therefore'', ''thus'', ''should'',
     ''must'', ''control'', ''practice'', ''perform'', ''abandon'']"

text \<open>
  The dictionary starts with \<open>is_universal = True\<close>; the only later assignment to that key
  stores \<open>True\<close> again.
\<close>

definition detect_verse_context :: "string \<Rightarrow> context_flags" where
  "detect_verse_context verse_text =
     (let text_lower = py_lower verse_text;
          context = \<lparr> is_battlefield = False, is_death_focused = False,
                      is_devotional = False, is_cosmic = False, is_universal = True \<rparr>;
          context = context\<lparr>is_battlefield := any_in battlefield_keywords text_lower\<rparr>;
          context = context\<lparr>is_death_focused := any_in death_keywords text_lower\<rparr>;
          context = context\<lparr>is_devotional := any_in devotional_keywords text_lower\<rparr>;
          context = context\<lparr>is_cosmic := any_in cosmic_keywords text_lower\<rparr>
      in if any_in universal_keywords text_lower
         then context\<lparr>is_universal := True\<rparr> else context)"

definition grief_words :: "string list" where
  "grief_words = [''died'', ''death'', ''lost someone'', ''grief'', ''mourning'',
     ''passed away'']"

definition confrontation_query_words :: "string list" where
  "confrontation_query_words = [''confront'', ''face'', ''stand up'', ''courage'', ''brave'',
     ''difficult situation'']"

text \<open>The body of the loop over \<open>verses\<close> in \<open>rank_verses_by_suitability\<close>.\<close>

definition rank_verse :: "bool \<Rightarrow> bool \<Rightarrow> verse_dict \<Rightarrow> verse_dict" where
  "rank_verse is_grief_query is_confrontation_query v =
     (let context = detect_verse_context (english v);
          suitability = adjusted_key v;
          suitability = (if is_death_focused context \<and> is_grief_query
                         then fmul suitability (py_float 1.2)
                         else if is_death_focused context \<and> \<not> is_grief_query
                         then fmul suitability (py_float 0.7)
                         else suitability);
          suitability = (if is_battlefield context \<and> is_confrontation_query
                         then fmul suitability (py_float 1.1)
                         else if is_battlefield context
                         then fmul suitability (py_float 0.8)
                         else suitability);
          suitability = (if is_universal context
                         then fmul suitability (py_float 1.1) else suitability)
      in v\<lparr>suitability_score := Some suitability, context_flags := Some context\<rparr>)"

definition rank_verses_by_suitability ::
  "verse_dict list \<Rightarrow> string \<Rightarrow> py_error + verse_dict list" where
  "rank_verses_by_suitability verses user_problem =
     (let problem_lower = py_lower user_problem;
          is_grief_query = any_in grief_words problem_lower;
          is_confrontation_query = any_in confrontation_query_words problem_lower;
          ranked = map (rank_verse is_grief_query is_confrontation_query) verses
      in sort_desc_required suitability_score ranked)"

text \<open>
  What \<open>reason_over_verses\<close> returns: the fixed "No highly relevant verses found" text, or
  whatever the call of the external text generator yields. The generator (prompt
  formatting, the completion request and the handling of its failures) is the parameter
  \<open>generate\<close>, applied to the problem and the verses put into the prompt. The second
  component of the result records that call: \<open>None\<close> when the generator was not called.
  The literal \<open>0.30\<close> of the threshold is the float just below 3/10; no float lies between
  the two, so on floats the comparison with 3/10 decides the same (lemma
  \<open>threshold_literal\<close>).
\<close>

datatype response = No_relevant_verses | Generated string

definition reason_over_verses ::
  "(string \<Rightarrow> verse_dict list \<Rightarrow> string) \<Rightarrow> string \<Rightarrow> verse_dict list
     \<Rightarrow> py_error + (response \<times> verse_dict list option)" where
  "reason_over_verses generate user_problem retrieved_verses =
     (let good_verses = filter (\<lambda>v. score v > 0.30) retrieved_verses
      in if good_verses = [] then Inr (No_relevant_verses, None)
         else case rank_verses_by_suitability good_verses user_problem of
                Inl e \<Rightarrow> Inl e
              | Inr ranked_verses \<Rightarrow>
                  (let top_verses = take 3 ranked_verses
                   in Inr (Generated (generate user_problem top_verses), Some top_verses)))"


section \<open>Intermediate results of the loops\<close>

text \<open>
  \<open>adjust_all\<close> is the list \<open>filtered\<close> that the loop of \<open>filter_context_specific_verses\<close>
  has built when the sort starts; \<open>rank_all\<close> is the list \<open>ranked\<close> of
  \<open>rank_verses_by_suitability\<close> at the same point. \<open>suitability_key\<close> is
  \<open>v.get('suitability_score', v['score'])\<close>, and \<open>valid_hits\<close> are the hits that pass the
  range check of \<open>search_gita\<close>.
\<close>

definition adjust_all :: "verse_dict list \<Rightarrow> string \<Rightarrow> verse_dict list" where
  "adjust_all results user_problem =
     map (adjust_verse (any_in social_words (py_lower user_problem))
                       (any_in confrontation_words (py_lower user_problem)) user_problem) results"

definition rank_all :: "verse_dict list \<Rightarrow> string \<Rightarrow> verse_dict list" where
  "rank_all verses user_problem =
     map (rank_verse (any_in grief_words (py_lower user_problem))
                     (any_in confrontation_query_words (py_lower user_problem))) verses"

definition suitability_key :: "verse_dict \<Rightarrow> real" where
  "suitability_key v = (case suitability_score v of Some s \<Rightarrow> s | None \<Rightarrow> score v)"

definition valid_hits :: "meta_record list \<Rightarrow> (int \<times> real) list \<Rightarrow> (int \<times> real) list" where
  "valid_hits metadata hits = filter (\<lambda>h. fst h < int (length metadata)) hits"

text \<open>The identity of a verse: chapter and verse number.\<close>

definition identity :: "verse_dict \<Rightarrow> int \<times> int" where
  "identity r = (chapter_no r, verse r)"

definition record_identity :: "meta_record \<Rightarrow> int \<times> int" where
  "record_identity m = (m_chapter m, m_verse m)"

section \<open>The stages as the specification words them\<close>

text \<open>
  The flags of the adjuster, read off the candidate text and the original query with the
  keyword tables of \<open>filter_context_specific_verses\<close>, and the scoring rule "first matching
  branch wins". The products are float products.
\<close>

definition battlefield_flagged :: "string \<Rightarrow> bool" where
  "battlefield_flagged t = any_in battlefield_words (py_lower t)"

definition death_focused :: "string \<Rightarrow> bool" where
  "death_focused t = any_in death_phrases (py_lower t)"

definition social_concern :: "string \<Rightarrow> bool" where
  "social_concern q = any_in social_words (py_lower q)"

definition confrontation :: "string \<Rightarrow> bool" where
  "confrontation q = any_in confrontation_words (py_lower q)"

definition spec_adjust :: "string \<Rightarrow> verse_dict \<Rightarrow> verse_dict" where
  "spec_adjust q v =
     (if battlefield_flagged (english v) \<and> \<not> social_concern q \<and> \<not> confrontation q
      then v\<lparr>context_warning := Some Battlefield,
             relevance_adjusted := Some (fmul (score v) (py_float 0.75))\<rparr>
      else if death_focused (english v) \<and> \<not> existential (categorize_problem q)
      then v\<lparr>context_warning := Some Death_rebirth,
             relevance_adjusted := Some (fmul (score v) (py_float 0.80))\<rparr>
      else v\<lparr>context_warning := None, relevance_adjusted := Some (score v)\<rparr>)"

text \<open>
  The query classes of the reranker and its cumulative factors, applied one after the
  other to the adjusted score (\<open>relevance_adjusted\<close>, or the raw score when that key is
  absent); \<open>before_universal\<close> is the score after the death and battlefield factors, before
  the universal one.
\<close>

definition is_grief_query :: "string \<Rightarrow> bool" where
  "is_grief_query q = any_in grief_words (py_lower q)"

definition is_confrontation_query :: "string \<Rightarrow> bool" where
  "is_confrontation_query q = any_in confrontation_query_words (py_lower q)"

definition before_universal :: "bool \<Rightarrow> bool \<Rightarrow> context_flags \<Rightarrow> real \<Rightarrow> real" where
  "before_universal grief confronting c a =
     (let s = (if is_death_focused c \<and> grief then fmul a (py_float 1.2) else a);
          s = (if is_death_focused c \<and> \<not> grief then fmul s (py_float 0.7) else s);
          s = (if is_battlefield c \<and> confronting then fmul s (py_float 1.1) else s)
      in if is_battlefield c \<and> \<not> confronting then fmul s (py_float 0.8) else s)"

definition spec_suitability :: "bool \<Rightarrow> bool \<Rightarrow> context_flags \<Rightarrow> real \<Rightarrow> real" where
  "spec_suitability grief confronting c a =
     (if is_universal c then fmul (before_universal grief confronting c a) (py_float 1.1)
      else before_universal grief confronting c a)"

definition spec_rerank :: "string \<Rightarrow> verse_dict \<Rightarrow> verse_dict" where
  "spec_rerank q v =
     v\<lparr>suitability_score :=
         Some (spec_suitability (is_grief_query q) (is_confrontation_query q)
                 (detect_verse_context (english v))
                 (case relevance_adjusted v of Some a \<Rightarrow> a | None \<Rightarrow> score v)),
       context_flags := Some (detect_verse_context (english v))\<rparr>"

section \<open>Example inputs\<close>

text \<open>
  A corpus record without risk keywords, and the candidate that the adjuster makes of it
  for a query without risk keywords. The decimal scores of such candidates are compared
  and sorted, never multiplied by the adjuster; the floats nearest to them stand in the
  same order.
\<close>

definition plain_record :: "int \<Rightarrow> int \<Rightarrow> bool \<Rightarrow> meta_record" where
  "plain_record c n p = \<lparr> m_chapter = c, m_verse = n, m_sanskrit = ''s'', m_english = ''act'',
       m_themes = None, m_is_practical = Some p \<rparr>"

definition unwarned :: "meta_record \<Rightarrow> real \<Rightarrow> verse_dict" where
  "unwarned m s = (make_result m s)\<lparr>context_warning := None, relevance_adjusted := Some s\<rparr>"

definition plain_flags :: context_flags where
  "plain_flags = \<lparr> is_battlefield = False, is_death_focused = False, is_devotional = False,
       is_cosmic = False, is_universal = True \<rparr>"

text \<open>
  Scenario B: a candidate with raw score \<open>0.55\<close> whose text speaks of a warrior on a
  battlefield, against a query about a desk job. A battlefield-flagged candidate with the
  negative raw score \<open>-0.4\<close>, and one with an arbitrary raw score. Two candidates whose
  adjusted scores 0.3 and 0.4 x 0.75 differ only by the rounding of the product.
\<close>

definition desk_job_query :: string where
  "desk_job_query = ''How do I stay calm at my desk job?''"

definition warrior_verse :: verse_dict where
  "warrior_verse = \<lparr> score = py_float 0.55, chapter_no = 2, verse = 31, sanskrit = ''s'',
       english = ''A warrior on the battlefield'', themes = [], is_practical = False,
       context_warning = None, relevance_adjusted = None, suitability_score = None,
       context_flags = None \<rparr>"

definition hostile_verse :: verse_dict where
  "hostile_verse = \<lparr> score = - py_float 0.4, chapter_no = 1, verse = 1, sanskrit = ''s'',
       english = ''war'', themes = [], is_practical = False,
       context_warning = None, relevance_adjusted = None, suitability_score = None,
       context_flags = None \<rparr>"

definition faint_verse :: "real \<Rightarrow> verse_dict" where
  "faint_verse s = \<lparr> score = s, chapter_no = 1, verse = 1, sanskrit = ''s'',
       english = ''war'', themes = [], is_practical = False,
       context_warning = None, relevance_adjusted = None, suitability_score = None,
       context_flags = None \<rparr>"

definition calm_verse :: verse_dict where
  "calm_verse = \<lparr> score = py_float 0.3, chapter_no = 2, verse = 48, sanskrit = ''s'',
       english = ''act'', themes = [], is_practical = True,
       context_warning = None, relevance_adjusted = None, suitability_score = None,
       context_flags = None \<rparr>"

definition war_verse :: verse_dict where
  "war_verse = \<lparr> score = py_float 0.4, chapter_no = 1, verse = 1, sanskrit = ''s'',
       english = ''war'', themes = [], is_practical = False,
       context_warning = None, relevance_adjusted = None, suitability_score = None,
       context_flags = None \<rparr>"

text \<open>
  Scenario E: eight retrieved candidates, in the descending order of raw score in which the
  index returns them, of which only the fifth and the seventh are practical.
\<close>

definition scenario_e_corpus :: "meta_record list" where
  "scenario_e_corpus =
     [plain_record 2 1 False, plain_record 2 2 False, plain_record 2 3 False,
      plain_record 2 4 False, plain_record 2 5 True, plain_record 2 6 False,
      plain_record 2 7 True, plain_record 2 8 False]"

definition scenario_e_search :: "string \<Rightarrow> nat \<Rightarrow> (int \<times> real) list" where
  "scenario_e_search q k =
     [(0, 0.9), (1, 0.8), (2, 0.7), (3, 0.6), (4, 0.5), (5, 0.4), (6, 0.3), (7, 0.2)]"

definition scenario_e_retrieved :: "verse_dict list" where
  "scenario_e_retrieved =
     [make_result (plain_record 2 1 False) 0.9, make_result (plain_record 2 2 False) 0.8,
      make_result (plain_record 2 3 False) 0.7, make_result (plain_record 2 4 False) 0.6,
      make_result (plain_record 2 5 True) 0.5, make_result (plain_record 2 6 False) 0.4,
      make_result (plain_record 2 7 True) 0.3, make_result (plain_record 2 8 False) 0.2]"

definition scenario_e_candidates :: "verse_dict list" where
  "scenario_e_candidates =
     [unwarned (plain_record 2 1 False) 0.9, unwarned (plain_record 2 2 False) 0.8,
      unwarned (plain_record 2 3 False) 0.7, unwarned (plain_record 2 4 False) 0.6,
      unwarned (plain_record 2 5 True) 0.5, unwarned (plain_record 2 6 False) 0.4,
      unwarned (plain_record 2 7 True) 0.3, unwarned (plain_record 2 8 False) 0.2]"

text \<open>Seven retrieved candidates; all but the best-scored one are practical.\<close>

definition quota_corpus :: "meta_record list" where
  "quota_corpus =
     [plain_record 3 1 False, plain_record 3 2 True, plain_record 3 3 True,
      plain_record 3 4 True, plain_record 3 5 True, plain_record 3 6 True,
      plain_record 3 7 True]"

definition quota_search :: "string \<Rightarrow> nat \<Rightarrow> (int \<times> real) list" where
  "quota_search q k =
     [(0, 0.9), (1, 0.8), (2, 0.7), (3, 0.6), (4, 0.5), (5, 0.4), (6, 0.3)]"

definition quota_retrieved :: "verse_dict list" where
  "quota_retrieved =
     [make_result (plain_record 3 1 False) 0.9, make_result (plain_record 3 2 True) 0.8,
      make_result (plain_record 3 3 True) 0.7, make_result (plain_record 3 4 True) 0.6,
      make_result (plain_record 3 5 True) 0.5, make_result (plain_record 3 6 True) 0.4,
      make_result (plain_record 3 7 True) 0.3]"

definition quota_candidates :: "verse_dict list" where
  "quota_candidates =
     [unwarned (plain_record 3 1 False) 0.9, unwarned (plain_record 3 2 True) 0.8,
      unwarned (plain_record 3 3 True) 0.7, unwarned (plain_record 3 4 True) 0.6,
      unwarned (plain_record 3 5 True) 0.5, unwarned (plain_record 3 6 True) 0.4,
      unwarned (plain_record 3 7 True) 0.3]"

text \<open>
  Scenario C: a grief query and a death-focused candidate with raw score 0.625 that the
  adjuster has penalised to 0.50. A candidate that the adjuster has penalised for the word
  "war", which the reranker does not flag. A candidate that the reranker flags both as
  death-focused and as battlefield, with adjusted score 0.50.
\<close>

definition grief_query :: string where
  "grief_query = ''My father died last week and I don't know how to cope''"

definition death_verse :: verse_dict where
  "death_verse = \<lparr> score = 0.625, chapter_no = 2, verse = 27, sanskrit = ''s'',
       english = ''Death is certain for the born'', themes = [], is_practical = False,
       context_warning = Some Death_rebirth, relevance_adjusted = Some 0.50,
       suitability_score = None, context_flags = None \<rparr>"

definition inner_war_verse :: verse_dict where
  "inner_war_verse = \<lparr> score = 0.5, chapter_no = 3, verse = 43, sanskrit = ''s'',
       english = ''the war within'', themes = [], is_practical = False,
       context_warning = Some Battlefield, relevance_adjusted = Some 0.375,
       suitability_score = None, context_flags = None \<rparr>"

definition death_warrior_verse :: verse_dict where
  "death_warrior_verse = \<lparr> score = 6004799503160661 / 2 ^ 53, chapter_no = 2, verse = 37,
       sanskrit = ''s'', english = ''Death is certain for the warrior'', themes = [],
       is_practical = False, context_warning = Some Battlefield,
       relevance_adjusted = Some 0.50, suitability_score = None, context_flags = None \<rparr>"

definition death_flags :: context_flags where
  "death_flags = \<lparr> is_battlefield = False, is_death_focused = True, is_devotional = False,
       is_cosmic = False, is_universal = True \<rparr>"

definition death_warrior_flags :: context_flags where
  "death_warrior_flags = \<lparr> is_battlefield = True, is_death_focused = True,
       is_devotional = False, is_cosmic = False, is_universal = True \<rparr>"

text \<open>Candidates at and above the confidence threshold 0.30.\<close>

definition weak_verse :: verse_dict where
  "weak_verse = unwarned (plain_record 2 47 True) 0.30"

definition strong_verse :: verse_dict where
  "strong_verse = unwarned (plain_record 2 48 True) 0.62"

text \<open>
  A corpus of one verse. An index that holds fewer vectors than the \<open>k\<close> it is asked for
  fills the missing neighbours with the record index \<open>-1\<close>, here with the lowest
  single-precision score.
\<close>

definition single_corpus :: "meta_record list" where
  "single_corpus = [plain_record 2 47 True]"

definition lowest_score :: real where
  "lowest_score = - 340282346638528859811704183484516925440"

definition sentinel_search :: "string \<Rightarrow> nat \<Rightarrow> (int \<times> real) list" where
  "sentinel_search q k = [(- 1, lowest_score)]"

definition padded_search :: "string \<Rightarrow> nat \<Rightarrow> (int \<times> real) list" where
  "padded_search q k = [(0, 0.62), (- 1, lowest_score)]"

definition steady_search :: "string \<Rightarrow> nat \<Rightarrow> (int \<times> real) list" where
  "steady_search q k = [(0, 0.625)]"

section \<open>Properties of the string primitives\<close>

lemma starts_with_iff: "starts_with w s \<longleftrightarrow> (\<exists>r. s = w @ r)"
  by (induction w s rule: starts_with.induct) auto

lemma str_in_iff: "str_in w s \<longleftrightarrow> (\<exists>p r. s = p @ w @ r)"
proof (induction s)
  case Nil
  then show ?case by auto
next
  case (Cons d ds)
  have "(\<exists>p r. d # ds = p @ w @ r) \<longleftrightarrow> (\<exists>r. d # ds = w @ r) \<or> (\<exists>p r. ds = p @ w @ r)"
  proof
    assume "\<exists>p r. d # ds = p @ w @ r"
    then obtain p r where e: "d # ds = p @ w @ r" by blast
    show "(\<exists>r. d # ds = w @ r) \<or> (\<exists>p r. ds = p @ w @ r)"
    proof (cases p)
      case Nil
      with e show ?thesis by auto
    next
      case (Cons a p')
      with e have "ds = p' @ w @ r" by simp
      then show ?thesis by blast
    qed
  next
    assume "(\<exists>r. d # ds = w @ r) \<or> (\<exists>p r. ds = p @ w @ r)"
    then show "\<exists>p r. d # ds = p @ w @ r"
    proof
      assume "\<exists>r. d # ds = w @ r"
      then obtain r where "d # ds = [] @ w @ r" by auto
      then show ?thesis by blast
    next
      assume "\<exists>p r. ds = p @ w @ r"
      then obtain p r where "d # ds = (d # p) @ w @ r" by auto
      then show ?thesis by blast
    qed
  qed
  with Cons show ?case by (simp add: starts_with_iff)
qed

section \<open>Query enhancement\<close>

text \<open>
  C9. For every query string, the enhanced query is the fixed prefix
  "Practical life guidance: " followed by the raw query and, when at least one problem
  category is true, by the focus phrases of exactly the true categories, joined in the
  order emotional, decision, career, relationship, existential (introduced by
  ". Focus on: " and separated by ", "); a query that matches no category keeps only the
  prefixed raw query.
\<close>

theorem enhance_query_contextual_spec:
  "enhance_query_contextual query = spec_enhance query"
  by (simp add: enhance_query_contextual_def spec_enhance_def category_order_def Let_def)

theorem enhance_query_contextual_spec_witness:
  "enhance_query_contextual ''I feel confused and afraid about my future''
     = ''Practical life guidance: I feel confused and afraid about my future. Focus on: managing fear and anxiety, making clear decisions, finding purpose and direction''"
  unfolding enhance_query_contextual_spec
  by (simp add: spec_enhance_def category_order_def categorize_problem_def any_in_def
      py_lower_def lower_char_def emotional_words_def decision_words_def
      relationship_words_def career_words_def existential_words_def)

section \<open>Rounding to binary64\<close>

text \<open>
  The rounding error is at most half a unit in the last place; the bisection finds the
  binade; in the normal range the relative error is at most \<open>2 powi (- 53)\<close>.
\<close>

lemma round_half_even_error: "\<bar>of_int (round_half_even m) - m\<bar> \<le> 1 / 2"
  unfolding round_half_even_def Let_def by (auto; linarith)

lemma binade_search_lower: "2 powi lo \<le> a \<Longrightarrow> 2 powi (binade_search n lo a) \<le> a"
  by (induction n arbitrary: lo) auto

lemma binade_search_upper:
  "a < 2 powi (lo + 2 ^ n) \<Longrightarrow> a < 2 powi (binade_search n lo a + 1)"
proof (induction n arbitrary: lo)
  case 0
  then show ?case by simp
next
  case (Suc n)
  show ?case
  proof (cases "2 powi (lo + 2 ^ n) \<le> a")
    case True
    from Suc.prems have "a < 2 powi ((lo + 2 ^ n) + 2 ^ n)" by (simp add: algebra_simps)
    from Suc.IH [OF this] True show ?thesis by simp
  next
    case False
    then have "a < 2 powi (lo + 2 ^ n)" by simp
    from Suc.IH [OF this] False show ?thesis by simp
  qed
qed

lemma binade_unique:
  assumes "2 powi k \<le> (a::real)" "a < 2 powi (k + 1)" "2 powi j \<le> a" "a < 2 powi (j + 1)"
  shows "j = k"
proof (rule ccontr)
  assume "j \<noteq> k"
  then consider "j + 1 \<le> k" | "k + 1 \<le> j" by linarith
  then show False
  proof cases
    case 1
    then have "(2::real) powi (j + 1) \<le> 2 powi k" by (intro power_int_increasing) auto
    with assms show False by linarith
  next
    case 2
    then have "(2::real) powi (k + 1) \<le> 2 powi j" by (intro power_int_increasing) auto
    with assms show False by linarith
  qed
qed

lemma ulp_exponent_subnormal: "a < 2 powi (- 1022) \<Longrightarrow> ulp_exponent a = - 1074"
  by (simp add: ulp_exponent_def)

lemma ulp_exponent_normal:
  assumes "2 powi k \<le> a" "a < 2 powi (k + 1)" "- 1022 \<le> k" "k \<le> 1023"
  shows "ulp_exponent a = k - 52"
proof -
  have lo: "(2::real) powi (- 1022) \<le> 2 powi k" using assms(3) by (intro power_int_increasing) auto
  with assms(1) have a: "2 powi (- 1022) \<le> a" by linarith
  have "(2::real) powi (k + 1) \<le> 2 powi (- 1022 + 2 ^ 11)"
    using assms(4) by (intro power_int_increasing) auto
  with assms(2) have "a < 2 powi (- 1022 + 2 ^ 11)" by linarith
  from binade_unique [OF assms(1,2) binade_search_lower [OF a, of 11] binade_search_upper [OF this]]
  have "binade_search 11 (- 1022) a = k" .
  with a show ?thesis by (simp add: ulp_exponent_def)
qed

lemma ulp_exponent_cases:
  "ulp_exponent a = - 1074 \<or> 2 powi (ulp_exponent a + 52) \<le> a"
proof (cases "a < 2 powi (- 1022)")
  case True
  then show ?thesis by (simp add: ulp_exponent_def)
next
  case False
  then have "2 powi (- 1022) \<le> a" by simp
  from binade_search_lower [OF this, of 11] False show ?thesis
    by (simp add: ulp_exponent_def)
qed

lemma round64_error: "\<bar>round64 x - x\<bar> \<le> 2 powi (ulp_exponent \<bar>x\<bar>) / 2"
proof -
  let ?e = "ulp_exponent \<bar>x\<bar>"
  have p: "(0::real) < 2 powi ?e" by simp
  have "round64 x - x = (of_int (round_half_even (x / 2 powi ?e)) - x / 2 powi ?e) * 2 powi ?e"
    using p by (simp add: round64_def Let_def algebra_simps)
  then have "\<bar>round64 x - x\<bar> = \<bar>of_int (round_half_even (x / 2 powi ?e)) - x / 2 powi ?e\<bar> * 2 powi ?e"
    using p by (simp add: abs_mult)
  also have "\<dots> \<le> 1 / 2 * 2 powi ?e"
    using round_half_even_error [of "x / 2 powi ?e"] p by (intro mult_right_mono) auto
  finally show ?thesis by simp
qed

lemma round64_eval:
  assumes "2 powi k \<le> \<bar>x\<bar>" "\<bar>x\<bar> < 2 powi (k + 1)" "- 1022 \<le> k" "k \<le> 1023"
  shows "round64 x = of_int (round_half_even (x / 2 powi (k - 52))) * 2 powi (k - 52)"
  using ulp_exponent_normal [OF assms] by (simp add: round64_def Let_def)

lemma round64_eval_subnormal:
  assumes "\<bar>x\<bar> < 2 powi (- 1022)"
  shows "round64 x = of_int (round_half_even (x / 2 powi (- 1074))) * 2 powi (- 1074)"
  using ulp_exponent_subnormal [OF assms] by (simp add: round64_def Let_def)

lemma half_ulp: "(2::real) powi e / 2 = 2 powi (e + 52) * 2 powi (- 53)"
proof -
  have "(2::real) powi (e + 52) * 2 powi (- 53) = 2 powi (e + 52 + (- 53))"
    by (subst power_int_add) auto
  also have "\<dots> = 2 powi (e - 1)" by simp
  also have "\<dots> = 2 powi e / 2" by (subst power_int_diff) auto
  finally show ?thesis by simp
qed

lemma round64_relative_error:
  assumes "2 powi (- 1022) \<le> y"
  shows "\<bar>round64 y - y\<bar> \<le> y * 2 powi (- 53)"
proof -
  have y: "0 < y" "\<bar>y\<bar> = y"
    using assms zero_less_power_int [of "2::real" "- 1022"] by linarith+
  have e: "\<bar>round64 y - y\<bar> \<le> 2 powi (ulp_exponent y) / 2"
    using round64_error [of y] y by simp
  from ulp_exponent_cases [of y] show ?thesis
  proof
    assume "ulp_exponent y = - 1074"
    with e have "\<bar>round64 y - y\<bar> \<le> 2 powi (- 1074) / 2" by simp
    also have "\<dots> = 2 powi (- 1022) * 2 powi (- 53)"
      using half_ulp [of "- 1074"] by simp
    also have "\<dots> \<le> y * 2 powi (- 53)"
      using assms by (intro mult_right_mono) auto
    finally show ?thesis .
  next
    assume a: "2 powi (ulp_exponent y + 52) \<le> y"
    have "(2::real) powi (ulp_exponent y) / 2 = 2 powi (ulp_exponent y + 52) * 2 powi (- 53)"
      by (rule half_ulp)
    also have "\<dots> \<le> y * 2 powi (- 53)"
      using a by (intro mult_right_mono) auto
    finally show ?thesis using e by linarith
  qed
qed

lemma round64_penalty_less:
  assumes c: "0 < c" "c \<le> 81 / 100" and x: "3 * 2 powi (- 1074) \<le> x"
  shows "round64 (x * c) < x"
proof -
  have xp: "0 < x" using x zero_less_power_int [of "2::real" "- 1074"] by linarith
  let ?y = "x * c"
  have y: "0 < ?y" "\<bar>?y\<bar> = ?y" "?y \<le> 81 / 100 * x"
    using c xp by (simp_all add: mult.commute)
  have e: "round64 ?y \<le> ?y + 2 powi (ulp_exponent ?y) / 2"
    using round64_error [of ?y] y(2) by linarith
  from ulp_exponent_cases [of ?y] show ?thesis
  proof
    assume "ulp_exponent ?y = - 1074"
    with e have "round64 ?y \<le> ?y + 2 powi (- 1074) / 2" by simp
    also have "\<dots> \<le> 81 / 100 * x + 2 powi (- 1074) / 2" using y by simp
    also have "\<dots> < x" using x by simp
    finally show ?thesis .
  next
    assume a: "2 powi (ulp_exponent ?y + 52) \<le> ?y"
    have "(2::real) powi (ulp_exponent ?y) / 2 = 2 powi (ulp_exponent ?y + 52) * 2 powi (- 53)"
      by (rule half_ulp)
    also have "\<dots> \<le> ?y * 2 powi (- 53)"
      using a by (intro mult_right_mono) auto
    finally have "round64 ?y \<le> ?y * (1 + 2 powi (- 53))"
      using e by (simp add: algebra_simps)
    also have "\<dots> \<le> (81 / 100 * x) * (1 + 2 powi (- 53))"
      using y by (intro mult_right_mono) auto
    also have "\<dots> < x" using xp by simp
    finally show ?thesis .
  qed
qed

text \<open>The floats that the decimal literals of the source and of the scenarios denote.\<close>

lemma py_float_075: "py_float 0.75 = 3 / 2 ^ 2"
  unfolding py_float_def
  by (subst round64_eval [where k = "- 1"]) (simp_all add: round_half_even_def)

lemma py_float_080: "py_float 0.80 = 3602879701896397 / 2 ^ 52"
  unfolding py_float_def
  by (subst round64_eval [where k = "- 1"]) (simp_all add: round_half_even_def)

lemma py_float_08: "py_float 0.8 = 3602879701896397 / 2 ^ 52"
  unfolding py_float_def
  by (subst round64_eval [where k = "- 1"]) (simp_all add: round_half_even_def)

lemma py_float_12: "py_float 1.2 = 5404319552844595 / 2 ^ 52"
  unfolding py_float_def
  by (subst round64_eval [where k = "0"]) (simp_all add: round_half_even_def)

lemma py_float_07: "py_float 0.7 = 3152519739159347 / 2 ^ 52"
  unfolding py_float_def
  by (subst round64_eval [where k = "- 1"]) (simp_all add: round_half_even_def)

lemma py_float_11: "py_float 1.1 = 2476979795053773 / 2 ^ 51"
  unfolding py_float_def
  by (subst round64_eval [where k = "0"]) (simp_all add: round_half_even_def)

lemma py_float_055: "py_float 0.55 = 2476979795053773 / 2 ^ 52"
  unfolding py_float_def
  by (subst round64_eval [where k = "- 1"]) (simp_all add: round_half_even_def)

lemma py_float_03: "py_float 0.3 = 5404319552844595 / 2 ^ 54"
  unfolding py_float_def
  by (subst round64_eval [where k = "- 2"]) (simp_all add: round_half_even_def)

lemma py_float_030: "py_float 0.30 = 5404319552844595 / 2 ^ 54"
  unfolding py_float_def
  by (subst round64_eval [where k = "- 2"]) (simp_all add: round_half_even_def)

lemma py_float_04: "py_float 0.4 = 3602879701896397 / 2 ^ 53"
  unfolding py_float_def
  by (subst round64_eval [where k = "- 2"]) (simp_all add: round_half_even_def)

lemma py_float_060: "py_float 0.60 = 5404319552844595 / 2 ^ 53"
  unfolding py_float_def
  by (subst round64_eval [where k = "- 1"]) (simp_all add: round_half_even_def)

lemma py_float_04125: "py_float 0.4125 = 3715469692580659 / 2 ^ 53"
  unfolding py_float_def
  by (subst round64_eval [where k = "- 2"]) (simp_all add: round_half_even_def)

lemma py_float_066: "py_float 0.66 = 5944751508129055 / 2 ^ 53"
  unfolding py_float_def
  by (subst round64_eval [where k = "- 1"]) (simp_all add: round_half_even_def)

text \<open>Bounds on a float product, and the products of the scenarios.\<close>

lemma fmul_relative_error:
  assumes "0 < x" "2 powi (- 1022) \<le> x * c"
  shows "\<bar>fmul x c - x * c\<bar> \<le> x * c * 2 powi (- 53)"
  unfolding fmul_def using assms(2) by (rule round64_relative_error)

lemma fmul_lower:
  assumes "0 < x" "2 powi (- 1022) \<le> x * c" "l \<le> c * (1 - 2 powi (- 53))"
  shows "l * x \<le> fmul x c"
proof -
  have "l * x \<le> (c * (1 - 2 powi (- 53))) * x"
    using assms(1,3) by (intro mult_right_mono) auto
  also have "\<dots> = x * c - x * c * 2 powi (- 53)" by (simp add: algebra_simps)
  also have "\<dots> \<le> fmul x c"
    using fmul_relative_error [OF assms(1,2)] by linarith
  finally show ?thesis .
qed

lemma fmul_upper:
  assumes "0 < x" "2 powi (- 1022) \<le> x * c" "c * (1 + 2 powi (- 53)) \<le> u"
  shows "fmul x c \<le> u * x"
proof -
  have "fmul x c \<le> x * c + x * c * 2 powi (- 53)"
    using fmul_relative_error [OF assms(1,2)] by linarith
  also have "\<dots> = (c * (1 + 2 powi (- 53))) * x" by (simp add: algebra_simps)
  also have "\<dots> \<le> u * x"
    using assms(1,3) by (intro mult_right_mono) auto
  finally show ?thesis .
qed

lemma normal_product:
  assumes "1 / 10 \<le> (x::real)" "1 / 2 \<le> c"
  shows "2 powi (- 1022) \<le> x * c"
proof -
  have "(2::real) powi (- 1022) \<le> 1 / 10 * (1 / 2)" by simp
  also have "\<dots> \<le> x * c" using assms by (intro mult_mono) auto
  finally show ?thesis .
qed

lemma fmul_penalty_less:
  assumes "3 * 2 powi (- 1074) \<le> x"
  shows "fmul x (py_float 0.75) < x" "fmul x (py_float 0.80) < x"
  unfolding fmul_def py_float_075 py_float_080
  by (rule round64_penalty_less [OF _ _ assms]; simp)+

lemma step_bounds:
  assumes "1 / 10 \<le> x"
  shows "1199 / 1000 * x \<le> fmul x (py_float 1.2)" "fmul x (py_float 1.2) \<le> 1201 / 1000 * x"
    "699 / 1000 * x \<le> fmul x (py_float 0.7)" "fmul x (py_float 0.7) \<le> 701 / 1000 * x"
    "1099 / 1000 * x \<le> fmul x (py_float 1.1)" "fmul x (py_float 1.1) \<le> 1101 / 1000 * x"
    "799 / 1000 * x \<le> fmul x (py_float 0.8)" "fmul x (py_float 0.8) \<le> 801 / 1000 * x"
    "749 / 1000 * x \<le> fmul x (py_float 0.75)" "799 / 1000 * x \<le> fmul x (py_float 0.80)"
proof -
  have x: "0 < x" using assms by simp
  have n: "2 powi (- 1022) \<le> x * c" if "1 / 2 \<le> c" for c
    using assms that by (rule normal_product)
  show "1199 / 1000 * x \<le> fmul x (py_float 1.2)"
    unfolding py_float_12 by (rule fmul_lower [OF x n]) simp_all
  show "fmul x (py_float 1.2) \<le> 1201 / 1000 * x"
    unfolding py_float_12 by (rule fmul_upper [OF x n]) simp_all
  show "699 / 1000 * x \<le> fmul x (py_float 0.7)"
    unfolding py_float_07 by (rule fmul_lower [OF x n]) simp_all
  show "fmul x (py_float 0.7) \<le> 701 / 1000 * x"
    unfolding py_float_07 by (rule fmul_upper [OF x n]) simp_all
  show "1099 / 1000 * x \<le> fmul x (py_float 1.1)"
    unfolding py_float_11 by (rule fmul_lower [OF x n]) simp_all
  show "fmul x (py_float 1.1) \<le> 1101 / 1000 * x"
    unfolding py_float_11 by (rule fmul_upper [OF x n]) simp_all
  show "799 / 1000 * x \<le> fmul x (py_float 0.8)"
    unfolding py_float_08 by (rule fmul_lower [OF x n]) simp_all
  show "fmul x (py_float 0.8) \<le> 801 / 1000 * x"
    unfolding py_float_08 by (rule fmul_upper [OF x n]) simp_all
  show "749 / 1000 * x \<le> fmul x (py_float 0.75)"
    unfolding py_float_075 by (rule fmul_lower [OF x n]) simp_all
  show "799 / 1000 * x \<le> fmul x (py_float 0.80)"
    unfolding py_float_080 by (rule fmul_lower [OF x n]) simp_all
qed

lemma fmul_055_075: "fmul (py_float 0.55) (py_float 0.75) = 7430939385161319 / 2 ^ 54"
  unfolding fmul_def py_float_055 py_float_075
  by (subst round64_eval [where k = "- 2"]) (simp_all add: round_half_even_def)

lemma fmul_04_075: "fmul (py_float 0.4) (py_float 0.75) = 5404319552844596 / 2 ^ 54"
  unfolding fmul_def py_float_04 py_float_075
  by (subst round64_eval [where k = "- 2"]) (simp_all add: round_half_even_def)

lemma fmul_neg_04_075: "fmul (- py_float 0.4) (py_float 0.75) = - (5404319552844596 / 2 ^ 54)"
  unfolding fmul_def py_float_04 py_float_075
  by (subst round64_eval [where k = "- 2"]) (simp_all add: round_half_even_def)

lemma fmul_faint:
  "fmul (2 powi (- 1074)) (py_float 0.75) = 2 powi (- 1074)"
  "fmul (2 * 2 powi (- 1074)) (py_float 0.75) = 2 * 2 powi (- 1074)"
  "fmul (3 * 2 powi (- 1074)) (py_float 0.75) = 2 * 2 powi (- 1074)"
  unfolding fmul_def py_float_075
  by (subst round64_eval_subnormal; simp add: round_half_even_def)+

lemma fmul_05_12: "fmul 0.50 (py_float 1.2) = py_float 0.60"
  unfolding fmul_def py_float_12 py_float_060
  by (subst round64_eval [where k = "- 1"]) (simp_all add: round_half_even_def)

lemma fmul_06_11: "fmul (py_float 0.60) (py_float 1.1) = 5944751508129055 / 2 ^ 53"
  unfolding fmul_def py_float_060 py_float_11
  by (subst round64_eval [where k = "- 1"]) (simp_all add: round_half_even_def)

lemma fmul_06_08: "fmul (py_float 0.60) (py_float 0.8) = 1080863910568919 / 2 ^ 51"
  unfolding fmul_def py_float_060 py_float_08
  by (subst round64_eval [where k = "- 2"]) (simp_all add: round_half_even_def)

lemma fmul_048_11: "fmul (1080863910568919 / 2 ^ 51) (py_float 1.1) = 1188950301625811 / 2 ^ 51"
  unfolding fmul_def py_float_11
  by (subst round64_eval [where k = "- 1"]) (simp_all add: round_half_even_def)

lemma fmul_0375_11: "fmul 0.375 (py_float 1.1) = 7430939385161319 / 2 ^ 54"
  unfolding fmul_def py_float_11
  by (subst round64_eval [where k = "- 2"]) (simp_all add: round_half_even_def)

lemma fmul_0625_11: "fmul 0.625 (py_float 1.1) = 11 / 16"
  unfolding fmul_def py_float_11
  by (subst round64_eval [where k = "- 1"]) (simp_all add: round_half_even_def)

lemma fmul_0625_080: "fmul 0.625 (py_float 0.80) = 0.50"
  unfolding fmul_def py_float_080
  by (subst round64_eval [where k = "- 1"]) (simp_all add: round_half_even_def)

lemma fmul_05_075: "fmul 0.5 (py_float 0.75) = 0.375"
  unfolding fmul_def py_float_075
  by (subst round64_eval [where k = "- 2"]) (simp_all add: round_half_even_def)

lemma fmul_two_thirds_075: "fmul (6004799503160661 / 2 ^ 53) (py_float 0.75) = 0.50"
  unfolding fmul_def py_float_075
  by (subst round64_eval [where k = "- 2"]) (simp_all add: round_half_even_def)

text \<open>
  No float lies between the float that the literal \<open>0.30\<close> denotes and 3/10: for a score
  that is a float, the comparison of \<open>reason_over_verses\<close> and the comparison with 3/10
  agree.
\<close>

lemma threshold_literal:
  assumes "round64 x = x"
  shows "(py_float 0.30 < x) = (0.30 < x)"
proof
  assume "0.30 < x"
  then show "py_float 0.30 < x" unfolding py_float_030 by simp
next
  assume a: "py_float 0.30 < x"
  show "0.30 < x"
  proof (cases "x < 1 / 2")
    case False
    then show ?thesis by simp
  next
    case True
    from a have lo: "1 / 4 \<le> x" unfolding py_float_030 by simp
    have "round64 x = of_int (round_half_even (x / 2 powi (- 2 - 52))) * 2 powi (- 2 - 52)"
      using lo True by (intro round64_eval) auto
    then obtain n :: int where x: "x = of_int n / 2 ^ 54"
      using assms by (auto simp: power_int_minus field_simps)
    from a have "5404319552844595 < (of_int n :: real)"
      unfolding py_float_030 x by (simp add: field_simps)
    then have "5404319552844595 < n" by linarith
    then have "5404319552844596 \<le> n" by simp
    then have "5404319552844596 \<le> (of_int n :: real)" by linarith
    then show ?thesis unfolding x by (simp add: field_simps)
  qed
qed

section \<open>Sorting\<close>

lemma sort_key_cong_set: "(\<And>x. x \<in> set xs \<Longrightarrow> f x = g x) \<Longrightarrow> sort_key f xs = sort_key g xs"
proof (induction xs)
  case Nil then show ?case by simp
next
  case (Cons a xs)
  have "insort_key f a ys = insort_key g a ys" if "set ys \<subseteq> set (a # xs)" for ys
    using that Cons.prems by (induction ys) auto
  from this[of "sort_key g xs"] Cons show ?case by auto
qed

lemma sort_desc_required_total:
  assumes "\<And>x. x \<in> set xs \<Longrightarrow> key x = Some (g x)"
  shows "sort_desc_required key xs = Inr (sort_desc g xs)"
proof -
  have "\<not> list_ex (\<lambda>x. key x = None) xs" using assms by (auto simp: list_ex_iff)
  moreover have "sort_desc (\<lambda>x. case key x of Some a \<Rightarrow> a | None \<Rightarrow> 0) xs = sort_desc g xs"
    unfolding sort_desc_def by (rule sort_key_cong_set) (simp add: assms)
  ultimately show ?thesis by (simp add: sort_desc_required_def)
qed

lemma sorted_sort_desc: "sorted (map (\<lambda>x. - key x) (sort_desc key xs))"
  by (simp add: sort_desc_def)

lemma sort_desc_id: "sorted (map (\<lambda>x. - key x) xs) \<Longrightarrow> sort_desc key xs = xs"
  by (simp add: sort_desc_def sort_key_id_if_sorted)

lemma set_sort_desc: "set (sort_desc key xs) = set xs"
  by (simp add: sort_desc_def)

lemma length_sort_desc: "length (sort_desc key xs) = length xs"
  by (simp add: sort_desc_def)

lemma mset_sort_desc: "mset (sort_desc key xs) = mset xs"
  by (simp add: sort_desc_def)

lemma sorted_desc_filter:
  "sorted (map (\<lambda>x. - key x) xs) \<Longrightarrow> sorted (map (\<lambda>x. - key x) (filter P xs))"
  by (rule sorted_filter)

lemma sorted_desc_take:
  "sorted (map (\<lambda>x. - key x) xs) \<Longrightarrow> sorted (map (\<lambda>x. - key x) (take n xs))"
  by (simp add: take_map [symmetric] sorted_wrt_take)

lemma distinct_map_sort_desc:
  "distinct (map f (sort_desc key xs)) = distinct (map f xs)"
proof -
  have "mset (map f (sort_desc key xs)) = mset (map f xs)"
    by (simp add: mset_sort_desc)
  then show ?thesis by (rule mset_eq_imp_distinct_iff)
qed

section \<open>The adjuster returns, and what it returns\<close>

lemma adjust_verse_key:
  "relevance_adjusted (adjust_verse a b q v) = Some (adjusted_key (adjust_verse a b q v))"
  by (simp add: adjust_verse_def adjusted_key_def Let_def)

lemma filter_context_specific_verses_eq:
  "filter_context_specific_verses results q = Inr (sort_desc adjusted_key (adjust_all results q))"
  unfolding filter_context_specific_verses_def Let_def adjust_all_def
  by (rule sort_desc_required_total) (auto simp: adjust_verse_key)

lemma adjust_all_spec: "adjust_all results q = map (spec_adjust q) results"
  by (simp add: adjust_all_def adjust_verse_def spec_adjust_def Let_def battlefield_flagged_def
      death_focused_def social_concern_def confrontation_def)

lemma spec_adjust_cases:
  "relevance_adjusted (spec_adjust q v) = Some (adjusted_key (spec_adjust q v))"
  "score (spec_adjust q v) = score v"
  "context_warning (spec_adjust q v) = None \<Longrightarrow> adjusted_key (spec_adjust q v) = score v"
  "context_warning (spec_adjust q v) \<noteq> None \<Longrightarrow> 3 * 2 powi (- 1074) \<le> score v
     \<Longrightarrow> adjusted_key (spec_adjust q v) < score v"
  using fmul_penalty_less [of "score v"]
  by (auto simp: spec_adjust_def adjusted_key_def split: if_splits)

lemma identity_spec_adjust: "identity (spec_adjust q v) = identity v"
  by (simp add: identity_def spec_adjust_def)

lemmas kw_defs = any_in_def py_lower_def lower_char_def battlefield_words_def death_phrases_def
  social_words_def confrontation_words_def existential_words_def categorize_problem_def

lemma spec_adjust_plain:
  "spec_adjust ''hello'' (make_result (plain_record c n p) s) = unwarned (plain_record c n p) s"
  by (simp add: spec_adjust_def unwarned_def make_result_def plain_record_def
      battlefield_flagged_def death_focused_def kw_defs)

lemma adjusted_key_unwarned: "adjusted_key (unwarned m s) = s"
  by (simp add: adjusted_key_def unwarned_def)

lemma ideal_unwarned: "ideal (unwarned (plain_record c n p) s) = p"
  by (simp add: ideal_def unwarned_def make_result_def plain_record_def)

lemma warrior_verse_flags:
  "battlefield_flagged (english warrior_verse)"
  "\<not> social_concern desk_job_query" "\<not> confrontation desk_job_query"
  by (simp_all add: battlefield_flagged_def social_concern_def confrontation_def
      warrior_verse_def desk_job_query_def kw_defs)

lemma war_flagged: "battlefield_flagged ''war''"
  by (simp add: battlefield_flagged_def kw_defs)

lemma adjust_all_warrior:
  "sort_desc adjusted_key (adjust_all [warrior_verse] desk_job_query)
     = [warrior_verse\<lparr>context_warning := Some Battlefield,
                       relevance_adjusted := Some (7430939385161319 / 2 ^ 54)\<rparr>]"
proof -
  have s: "spec_adjust desk_job_query warrior_verse
          = warrior_verse\<lparr>context_warning := Some Battlefield,
               relevance_adjusted := Some (fmul (py_float 0.55) (py_float 0.75))\<rparr>"
    using warrior_verse_flags by (simp add: spec_adjust_def) (simp add: warrior_verse_def)
  show ?thesis
    unfolding adjust_all_spec list.map s fmul_055_075 by (simp add: sort_desc_def)
qed

text \<open>
  C4, as the code has it. For every candidate and original query the adjuster applies
  exactly the first matching branch: a battlefield-flagged text against a query that is
  neither a social concern nor a confrontation gets the warning \<open>battlefield\<close> and the float
  product of the raw score and 0.75; otherwise a death-focused text against a query not
  classified existential gets \<open>death_rebirth\<close> and the float product of the raw score and
  0.80; otherwise no warning and the raw score. The adjusted list is then sorted by
  adjusted score, descending. A battlefield-flagged candidate with raw score 0.55 against
  a query that is neither gets \<open>7430939385161319 / 2 ^ 54\<close>, which is
  0.41250000000000003.
\<close>

theorem adjuster_first_matching_branch:
  "filter_context_specific_verses results q
     = Inr (sort_desc adjusted_key (map (spec_adjust q) results))
   \<and> (battlefield_flagged (english v) \<and> \<not> social_concern q \<and> \<not> confrontation q
        \<and> score v = py_float 0.55
      \<longrightarrow> filter_context_specific_verses [v] q
            = Inr [v\<lparr>context_warning := Some Battlefield,
                      relevance_adjusted := Some (7430939385161319 / 2 ^ 54)\<rparr>])"
proof (intro conjI impI)
  show "filter_context_specific_verses results q
     = Inr (sort_desc adjusted_key (map (spec_adjust q) results))"
    by (simp add: filter_context_specific_verses_eq adjust_all_spec)
next
  assume "battlefield_flagged (english v) \<and> \<not> social_concern q \<and> \<not> confrontation q
        \<and> score v = py_float 0.55"
  then have s: "spec_adjust q v
          = v\<lparr>context_warning := Some Battlefield,
               relevance_adjusted := Some (fmul (py_float 0.55) (py_float 0.75))\<rparr>"
    by (simp add: spec_adjust_def)
  show "filter_context_specific_verses [v] q
            = Inr [v\<lparr>context_warning := Some Battlefield,
                      relevance_adjusted := Some (7430939385161319 / 2 ^ 54)\<rparr>]"
    unfolding filter_context_specific_verses_eq adjust_all_spec list.map s fmul_055_075
    by (simp add: sort_desc_def)
qed

theorem adjuster_first_matching_branch_witness:
  "battlefield_flagged (english warrior_verse) \<and> \<not> social_concern desk_job_query
   \<and> \<not> confrontation desk_job_query \<and> score warrior_verse = py_float 0.55
   \<and> filter_context_specific_verses [warrior_verse] desk_job_query
       = Inr [warrior_verse\<lparr>context_warning := Some Battlefield,
                            relevance_adjusted := Some (7430939385161319 / 2 ^ 54)\<rparr>]"
proof -
  have r: "score warrior_verse = py_float 0.55" by (simp add: warrior_verse_def)
  from adjuster_first_matching_branch [of "[]" desk_job_query warrior_verse]
    warrior_verse_flags r
  show ?thesis by blast
qed

text \<open>
  C4 does not hold with the value 0.4125: in Scenario B the adjusted score is the float
  next above the float that 0.4125 denotes.
\<close>

theorem scenario_b_counterexample:
  "filter_context_specific_verses [warrior_verse] desk_job_query
     = Inr [warrior_verse\<lparr>context_warning := Some Battlefield,
                          relevance_adjusted := Some (7430939385161319 / 2 ^ 54)\<rparr>]
   \<and> score warrior_verse = py_float 0.55
   \<and> py_float 0.4125 = 7430939385161318 / 2 ^ 54
   \<and> (7430939385161319 / 2 ^ 54 :: real) \<noteq> py_float 0.4125"
  unfolding filter_context_specific_verses_eq adjust_all_warrior py_float_04125
  by (simp add: warrior_verse_def)

text \<open>
  The sort sees the rounded products: 0.4 x 0.75 is rounded to the float above 0.3, so the
  penalised candidate stands before a candidate with raw score 0.3.
\<close>

lemma adjuster_orders_by_rounded_product:
  "filter_context_specific_verses [calm_verse, war_verse] desk_job_query
     = Inr [war_verse\<lparr>context_warning := Some Battlefield,
                      relevance_adjusted := Some (5404319552844596 / 2 ^ 54)\<rparr>,
            calm_verse\<lparr>context_warning := None,
                       relevance_adjusted := Some (5404319552844595 / 2 ^ 54)\<rparr>]"
proof -
  have w: "spec_adjust desk_job_query war_verse
          = war_verse\<lparr>context_warning := Some Battlefield,
               relevance_adjusted := Some (fmul (py_float 0.4) (py_float 0.75))\<rparr>"
    using warrior_verse_flags(2,3)
    by (simp add: spec_adjust_def battlefield_flagged_def war_verse_def kw_defs)
  have c: "spec_adjust desk_job_query calm_verse
          = calm_verse\<lparr>context_warning := None,
               relevance_adjusted := Some (py_float 0.3)\<rparr>"
    by (simp add: spec_adjust_def battlefield_flagged_def death_focused_def calm_verse_def
        kw_defs)
  show ?thesis
    unfolding filter_context_specific_verses_eq adjust_all_spec list.map w c
      fmul_04_075 py_float_03
    by (simp add: sort_desc_def adjusted_key_def)
qed

text \<open>
  C3, as the code has it. The adjuster always returns, with one candidate per input
  candidate. A candidate without warning keeps its raw score as adjusted score, whatever
  the raw score is. A candidate with a warning and a raw score of at least
  \<open>3 * 2 powi (- 1074)\<close> (three times the smallest positive float, about 1.5e-323) has an
  adjusted score strictly below the raw score.
\<close>

theorem warning_monotonicity_positive:
  "filter_context_specific_verses results q = Inr (sort_desc adjusted_key (adjust_all results q))
   \<and> length (sort_desc adjusted_key (adjust_all results q)) = length results
   \<and> (\<forall>w \<in> set (sort_desc adjusted_key (adjust_all results q)).
         relevance_adjusted w = Some (adjusted_key w)
         \<and> (context_warning w = None \<longrightarrow> adjusted_key w = score w)
         \<and> (context_warning w \<noteq> None \<and> 3 * 2 powi (- 1074) \<le> score w
              \<longrightarrow> adjusted_key w < score w))"
proof -
  have "relevance_adjusted w = Some (adjusted_key w)
         \<and> (context_warning w = None \<longrightarrow> adjusted_key w = score w)
         \<and> (context_warning w \<noteq> None \<and> 3 * 2 powi (- 1074) \<le> score w
              \<longrightarrow> adjusted_key w < score w)"
    if "w \<in> set (sort_desc adjusted_key (adjust_all results q))" for w
  proof -
    from that obtain v where w: "w = spec_adjust q v"
      by (auto simp: set_sort_desc adjust_all_spec)
    show ?thesis unfolding w using spec_adjust_cases [of q v] by auto
  qed
  then show ?thesis
    by (simp add: filter_context_specific_verses_eq length_sort_desc adjust_all_def)
qed

theorem warning_monotonicity_positive_witness:
  "filter_context_specific_verses [warrior_verse] desk_job_query
     = Inr [warrior_verse\<lparr>context_warning := Some Battlefield,
                          relevance_adjusted := Some (7430939385161319 / 2 ^ 54)\<rparr>]
   \<and> score warrior_verse = 2476979795053773 / 2 ^ 52
   \<and> 3 * 2 powi (- 1074) \<le> score warrior_verse
   \<and> (7430939385161319 / 2 ^ 54 :: real) < score warrior_verse"
proof -
  have s: "score warrior_verse = 2476979795053773 / 2 ^ 52"
    unfolding warrior_verse_def verse_dict.simps py_float_055 ..
  have t: "3 * 2 powi (- 1074) \<le> score warrior_verse" unfolding s by simp
  from warning_monotonicity_positive [of "[warrior_verse]" desk_job_query] t s
  show ?thesis
    unfolding adjust_all_warrior by (simp add: adjusted_key_def)
qed

text \<open>
  C3 does not hold without the condition on the raw score: a battlefield-flagged candidate
  with raw score -0.4 gets the warning and the adjusted score -0.30000000000000004, which
  is above its raw score.
\<close>

theorem warning_monotonicity_counterexample:
  "filter_context_specific_verses [hostile_verse] desk_job_query
     = Inr [hostile_verse\<lparr>context_warning := Some Battlefield,
                          relevance_adjusted := Some (- (5404319552844596 / 2 ^ 54))\<rparr>]
   \<and> score hostile_verse = - (3602879701896397 / 2 ^ 53)
   \<and> \<not> (- (5404319552844596 / 2 ^ 54) < (- (3602879701896397 / 2 ^ 53) :: real))"
proof -
  have s: "spec_adjust desk_job_query hostile_verse
          = hostile_verse\<lparr>context_warning := Some Battlefield,
               relevance_adjusted := Some (fmul (- py_float 0.4) (py_float 0.75))\<rparr>"
    using warrior_verse_flags(2,3) war_flagged
    by (simp add: spec_adjust_def) (simp add: hostile_verse_def)
  have e: "filter_context_specific_verses [hostile_verse] desk_job_query
     = Inr [hostile_verse\<lparr>context_warning := Some Battlefield,
                          relevance_adjusted := Some (- (5404319552844596 / 2 ^ 54))\<rparr>]"
    unfolding filter_context_specific_verses_eq adjust_all_spec list.map s fmul_neg_04_075
    by (simp add: sort_desc_def)
  have c: "score hostile_verse = - (3602879701896397 / 2 ^ 53)"
    unfolding hostile_verse_def verse_dict.simps py_float_04 ..
  show ?thesis using e c by simp
qed

text \<open>
  The bound of C3 is sharp: the two smallest positive floats keep their value under the
  penalty, and the third one is reduced.
\<close>

lemma faint_scores_keep_their_value:
  "filter_context_specific_verses [faint_verse (2 powi (- 1074))] desk_job_query
     = Inr [(faint_verse (2 powi (- 1074)))\<lparr>context_warning := Some Battlefield,
               relevance_adjusted := Some (2 powi (- 1074))\<rparr>]"
  "filter_context_specific_verses [faint_verse (2 * 2 powi (- 1074))] desk_job_query
     = Inr [(faint_verse (2 * 2 powi (- 1074)))\<lparr>context_warning := Some Battlefield,
               relevance_adjusted := Some (2 * 2 powi (- 1074))\<rparr>]"
  "filter_context_specific_verses [faint_verse (3 * 2 powi (- 1074))] desk_job_query
     = Inr [(faint_verse (3 * 2 powi (- 1074)))\<lparr>context_warning := Some Battlefield,
               relevance_adjusted := Some (2 * 2 powi (- 1074))\<rparr>]"
proof -
  have s: "spec_adjust desk_job_query (faint_verse x)
          = (faint_verse x)\<lparr>context_warning := Some Battlefield,
               relevance_adjusted := Some (fmul x (py_float 0.75))\<rparr>" for x
    using warrior_verse_flags(2,3) war_flagged
    by (simp add: spec_adjust_def) (simp add: faint_verse_def)
  show "filter_context_specific_verses [faint_verse (2 powi (- 1074))] desk_job_query
     = Inr [(faint_verse (2 powi (- 1074)))\<lparr>context_warning := Some Battlefield,
               relevance_adjusted := Some (2 powi (- 1074))\<rparr>]"
    unfolding filter_context_specific_verses_eq adjust_all_spec list.map s fmul_faint
    by (simp add: sort_desc_def)
  show "filter_context_specific_verses [faint_verse (2 * 2 powi (- 1074))] desk_job_query
     = Inr [(faint_verse (2 * 2 powi (- 1074)))\<lparr>context_warning := Some Battlefield,
               relevance_adjusted := Some (2 * 2 powi (- 1074))\<rparr>]"
    unfolding filter_context_specific_verses_eq adjust_all_spec list.map s fmul_faint
    by (simp add: sort_desc_def)
  show "filter_context_specific_verses [faint_verse (3 * 2 powi (- 1074))] desk_job_query
     = Inr [(faint_verse (3 * 2 powi (- 1074)))\<lparr>context_warning := Some Battlefield,
               relevance_adjusted := Some (2 * 2 powi (- 1074))\<rparr>]"
    unfolding filter_context_specific_verses_eq adjust_all_spec list.map s fmul_faint
    by (simp add: sort_desc_def)
qed

section \<open>Selection and the final sort\<close>

lemma filter_not_in_ideal:
  "filter (\<lambda>r. r \<notin> set (filter ideal xs)) xs = filter (\<lambda>r. \<not> ideal r) xs"
  by (rule filter_cong) auto

lemma select_results_many_ideal:
  "5 \<le> length (filter ideal xs) \<Longrightarrow> select_results True xs = take 5 (filter ideal xs)"
  by (simp add: select_results_def Let_def)

lemma select_results_few_ideal:
  "length (filter ideal xs) < 5 \<Longrightarrow>
   select_results True xs =
     filter ideal xs @ take (5 - length (filter ideal xs)) (filter (\<lambda>r. \<not> ideal r) xs)"
  unfolding select_results_def Let_def filter_not_in_ideal by simp

lemma length_select_results: "length (select_results b xs) \<le> 5"
  unfolding select_results_def Let_def filter_not_in_ideal by auto

lemma set_select_results: "set (select_results b xs) \<subseteq> set xs"
  unfolding select_results_def Let_def filter_not_in_ideal
  by (auto dest: in_set_takeD)

lemma distinct_map_select_results:
  assumes "distinct (map f xs)"
  shows "distinct (map f (select_results b xs))"
proof -
  have inj: "inj_on f (set xs)" and d: "distinct xs"
    using assms by (simp_all add: distinct_map)
  have t: "distinct (map f (take n (filter P xs)))" for n P
    using assms by (simp add: take_map [symmetric] distinct_map_filter)
  have a: "distinct (map f (filter ideal xs @ take n (filter (\<lambda>r. \<not> ideal r) xs)))" for n
  proof -
    have "f x \<noteq> f y" if "x \<in> set (filter ideal xs)"
      "y \<in> set (take n (filter (\<lambda>r. \<not> ideal r) xs))" for x y
    proof
      assume e: "f x = f y"
      from that have "x \<in> set xs" "ideal x" "y \<in> set xs" "\<not> ideal y"
        by (auto dest: in_set_takeD)
      with e inj show False by (auto dest: inj_onD)
    qed
    then show ?thesis
      using t [of n "\<lambda>r. \<not> ideal r"] assms by (auto simp: distinct_map_filter)
  qed
  have p: "distinct (map f (take 5 xs))"
    using assms by (simp add: take_map [symmetric])
  have q: "take 5 (filter ideal xs @ filter (\<lambda>r. \<not> ideal r) xs)
             = filter ideal xs @ take (5 - length (filter ideal xs)) (filter (\<lambda>r. \<not> ideal r) xs)"
    if "\<not> 5 \<le> length (filter ideal xs)"
    using that by simp
  show ?thesis
    unfolding select_results_def Let_def filter_not_in_ideal
    using t [of 5 ideal] a p q by (simp del: take_append map_append)
qed

lemma search_gita_eq:
  assumes "build_results metadata (index_search (enhance_query_contextual query) top_k) = Inr retrieved"
  shows "search_gita index_search metadata query top_k fp =
           Inr (sort_desc adjusted_key
                  (select_results fp (sort_desc adjusted_key (adjust_all retrieved query))))"
  using assms by (simp add: search_gita_def Let_def filter_context_specific_verses_eq)

lemma search_gita_length:
  assumes "search_gita index_search metadata query top_k fp = Inr rs"
  shows "length rs \<le> 5"
proof (cases "build_results metadata (index_search (enhance_query_contextual query) top_k)")
  case (Inl e)
  with assms show ?thesis by (simp add: search_gita_def Let_def)
next
  case (Inr retrieved)
  from search_gita_eq [of metadata index_search query top_k retrieved fp] Inr assms
  show ?thesis by (auto simp: length_sort_desc length_select_results)
qed

lemma search_gita_members:
  assumes "search_gita index_search metadata query top_k fp = Inr retrieved"
    and "r \<in> set retrieved"
  shows "\<exists>v. r = spec_adjust query v"
proof (cases "build_results metadata (index_search (enhance_query_contextual query) top_k)")
  case (Inl e)
  with assms(1) show ?thesis by (simp add: search_gita_def Let_def)
next
  case (Inr found)
  from search_gita_eq [of metadata index_search query top_k found fp] Inr assms(1)
  have "retrieved = sort_desc adjusted_key
          (select_results fp (sort_desc adjusted_key (adjust_all found query)))" by simp
  with assms(2) have "r \<in> set (select_results fp (sort_desc adjusted_key (adjust_all found query)))"
    by (simp add: set_sort_desc)
  with set_select_results have "r \<in> set (sort_desc adjusted_key (adjust_all found query))"
    by blast
  then show ?thesis by (auto simp: set_sort_desc adjust_all_spec)
qed

lemma scenario_e_build:
  "build_results scenario_e_corpus (scenario_e_search q k) = Inr scenario_e_retrieved"
  by (simp add: scenario_e_corpus_def scenario_e_search_def scenario_e_retrieved_def py_index_def)

lemma scenario_e_adjust:
  "filter_context_specific_verses scenario_e_retrieved ''hello'' = Inr scenario_e_candidates"
  by (simp add: filter_context_specific_verses_eq adjust_all_spec scenario_e_retrieved_def
      scenario_e_candidates_def spec_adjust_plain sort_desc_def adjusted_key_unwarned)

lemma quota_build:
  "build_results quota_corpus (quota_search q k) = Inr quota_retrieved"
  by (simp add: quota_corpus_def quota_search_def quota_retrieved_def py_index_def)

lemma quota_adjust:
  "filter_context_specific_verses quota_retrieved ''hello'' = Inr quota_candidates"
  by (simp add: filter_context_specific_verses_eq adjust_all_spec quota_retrieved_def
      quota_candidates_def spec_adjust_plain sort_desc_def adjusted_key_unwarned)

text \<open>
  C1, as the code has it. With the practical filter on and fewer than five ideal
  candidates, the result holds every ideal candidate and the first
  (five minus their number) of the remaining candidates in adjusted-score order, and the
  whole result is sorted by adjusted score, descending, by the final sort; its length is
  the smaller of five and the number of candidates. So an ideal candidate stands before
  a non-ideal one only when its adjusted score is not smaller. With 2 ideal among 8
  retrieved candidates the result has exactly 5 entries: the 2 ideal ones and the 3
  non-ideal ones of highest adjusted score, in the order of their adjusted scores.
\<close>

theorem practical_backfill_sorted_by_score:
  assumes "build_results metadata (index_search (enhance_query_contextual query) top_k)
             = Inr retrieved"
    and "filter_context_specific_verses retrieved query = Inr candidates"
    and "length (filter ideal candidates) < 5"
  shows "search_gita index_search metadata query top_k True
           = Inr (sort_desc adjusted_key
                   (filter ideal candidates
                    @ take (5 - length (filter ideal candidates))
                        (filter (\<lambda>r. \<not> ideal r) candidates)))
         \<and> sorted (map (\<lambda>r. - adjusted_key r)
                     (sort_desc adjusted_key
                       (filter ideal candidates
                        @ take (5 - length (filter ideal candidates))
                            (filter (\<lambda>r. \<not> ideal r) candidates))))
         \<and> length (sort_desc adjusted_key
                   (filter ideal candidates
                    @ take (5 - length (filter ideal candidates))
                        (filter (\<lambda>r. \<not> ideal r) candidates)))
             = min 5 (length candidates)"
proof -
  have c: "candidates = sort_desc adjusted_key (adjust_all retrieved query)"
    using assms(2) by (simp add: filter_context_specific_verses_eq)
  have "length (filter ideal candidates) + length (filter (\<lambda>r. \<not> ideal r) candidates)
          = length candidates"
    by (rule sum_length_filter_compl)
  then have l: "length (filter ideal candidates
                    @ take (5 - length (filter ideal candidates))
                        (filter (\<lambda>r. \<not> ideal r) candidates)) = min 5 (length candidates)"
    using assms(3) by simp
  show ?thesis
    using search_gita_eq [of metadata index_search query top_k retrieved True] assms(1)
      select_results_few_ideal [OF assms(3)] l
    by (simp add: c [symmetric] sorted_sort_desc length_sort_desc)
qed

theorem practical_backfill_sorted_by_score_witness:
  "build_results scenario_e_corpus (scenario_e_search (enhance_query_contextual ''hello'') 8)
     = Inr scenario_e_retrieved
   \<and> filter_context_specific_verses scenario_e_retrieved ''hello'' = Inr scenario_e_candidates
   \<and> length (filter ideal scenario_e_candidates) = 2
   \<and> search_gita scenario_e_search scenario_e_corpus ''hello'' 8 True
       = Inr [unwarned (plain_record 2 1 False) 0.9, unwarned (plain_record 2 2 False) 0.8,
              unwarned (plain_record 2 3 False) 0.7, unwarned (plain_record 2 5 True) 0.5,
              unwarned (plain_record 2 7 True) 0.3]"
proof -
  have i: "length (filter ideal scenario_e_candidates) = 2"
    by (simp add: scenario_e_candidates_def ideal_unwarned)
  then have lt: "length (filter ideal scenario_e_candidates) < 5" by simp
  have s: "sort_desc adjusted_key
                   (filter ideal scenario_e_candidates
                    @ take (5 - length (filter ideal scenario_e_candidates))
                        (filter (\<lambda>r. \<not> ideal r) scenario_e_candidates))
     = [unwarned (plain_record 2 1 False) 0.9, unwarned (plain_record 2 2 False) 0.8,
              unwarned (plain_record 2 3 False) 0.7, unwarned (plain_record 2 5 True) 0.5,
              unwarned (plain_record 2 7 True) 0.3]"
    unfolding i by (simp add: scenario_e_candidates_def ideal_unwarned sort_desc_def adjusted_key_unwarned)
  from practical_backfill_sorted_by_score
         [of scenario_e_corpus scenario_e_search "''hello''" 8 scenario_e_retrieved
             scenario_e_candidates]
       scenario_e_build scenario_e_adjust lt
  show ?thesis using i unfolding s by simp
qed

text \<open>
  C1 does not hold as stated: in Scenario E, with the two ideal candidates scored 0.5 and
  0.3, the result lists the three non-ideal candidates scored 0.9, 0.8 and 0.7 before the
  two ideal ones.
\<close>

theorem ideal_first_counterexample:
  "search_gita scenario_e_search scenario_e_corpus ''hello'' 8 True
     = Inr [unwarned (plain_record 2 1 False) 0.9, unwarned (plain_record 2 2 False) 0.8,
            unwarned (plain_record 2 3 False) 0.7, unwarned (plain_record 2 5 True) 0.5,
            unwarned (plain_record 2 7 True) 0.3]
   \<and> \<not> ideal (unwarned (plain_record 2 1 False) 0.9)
   \<and> ideal (unwarned (plain_record 2 5 True) 0.5)"
proof -
  have "select_results True scenario_e_candidates
     = [unwarned (plain_record 2 5 True) 0.5, unwarned (plain_record 2 7 True) 0.3,
        unwarned (plain_record 2 1 False) 0.9, unwarned (plain_record 2 2 False) 0.8,
        unwarned (plain_record 2 3 False) 0.7]"
    unfolding select_results_def Let_def filter_not_in_ideal
    by (simp add: scenario_e_candidates_def ideal_unwarned)
  then show ?thesis
    by (simp add: search_gita_def Let_def scenario_e_build scenario_e_adjust sort_desc_def
        adjusted_key_unwarned ideal_unwarned)
qed

text \<open>
  C5. With the practical filter on and at least five ideal candidates among the adjusted
  candidates, the result is the first five ideal candidates in adjusted-score order: five
  entries, all ideal, sorted by adjusted score, descending.
\<close>

theorem practicality_quota:
  assumes "build_results metadata (index_search (enhance_query_contextual query) top_k)
             = Inr retrieved"
    and "filter_context_specific_verses retrieved query = Inr candidates"
    and "5 \<le> length (filter ideal candidates)"
  shows "search_gita index_search metadata query top_k True
           = Inr (take 5 (filter ideal candidates))
         \<and> length (take 5 (filter ideal candidates)) = 5
         \<and> (\<forall>r \<in> set (take 5 (filter ideal candidates)). ideal r)
         \<and> sorted (map (\<lambda>r. - adjusted_key r) (take 5 (filter ideal candidates)))"
proof -
  have c: "candidates = sort_desc adjusted_key (adjust_all retrieved query)"
    using assms(2) by (simp add: filter_context_specific_verses_eq)
  have "sorted (map (\<lambda>r. - adjusted_key r) candidates)"
    unfolding c by (rule sorted_sort_desc)
  then have s: "sorted (map (\<lambda>r. - adjusted_key r) (take 5 (filter ideal candidates)))"
    by (intro sorted_desc_take sorted_desc_filter)
  have a: "\<forall>r \<in> set (take 5 (filter ideal candidates)). ideal r"
    by (auto dest: in_set_takeD)
  have l: "length (take 5 (filter ideal candidates)) = 5"
    using assms(3) by simp
  have "search_gita index_search metadata query top_k True
           = Inr (take 5 (filter ideal candidates))"
    using search_gita_eq [of metadata index_search query top_k retrieved True] assms(1)
      select_results_many_ideal [OF assms(3)] sort_desc_id [OF s]
    by (simp add: c [symmetric])
  then show ?thesis using a l s by blast
qed

theorem practicality_quota_witness:
  "build_results quota_corpus (quota_search (enhance_query_contextual ''hello'') 7)
     = Inr quota_retrieved
   \<and> filter_context_specific_verses quota_retrieved ''hello'' = Inr quota_candidates
   \<and> 5 \<le> length (filter ideal quota_candidates)
   \<and> search_gita quota_search quota_corpus ''hello'' 7 True
       = Inr [unwarned (plain_record 3 2 True) 0.8, unwarned (plain_record 3 3 True) 0.7,
              unwarned (plain_record 3 4 True) 0.6, unwarned (plain_record 3 5 True) 0.5,
              unwarned (plain_record 3 6 True) 0.4]"
proof -
  have f: "filter ideal quota_candidates
      = [unwarned (plain_record 3 2 True) 0.8, unwarned (plain_record 3 3 True) 0.7,
         unwarned (plain_record 3 4 True) 0.6, unwarned (plain_record 3 5 True) 0.5,
         unwarned (plain_record 3 6 True) 0.4, unwarned (plain_record 3 7 True) 0.3]"
    by (simp add: quota_candidates_def ideal_unwarned)
  then have ge: "5 \<le> length (filter ideal quota_candidates)" by simp
  from practicality_quota
         [of quota_corpus quota_search "''hello''" 7 quota_retrieved quota_candidates]
       quota_build quota_adjust ge
  show ?thesis unfolding f by simp
qed

section \<open>Record indices outside the corpus\<close>

text \<open>
  A hit whose index is at least the length of the corpus is dropped. When no index is
  negative, the search returns, with at most five results of pairwise distinct identity,
  provided that the index reports no record twice and that the identities of the corpus
  are distinct.
\<close>

lemma build_results_drops_large:
  "int (length metadata) \<le> idx \<Longrightarrow>
     build_results metadata ((idx, s) # hits) = build_results metadata hits"
  by simp

lemma build_results_nonneg:
  assumes "\<forall>h \<in> set hits. 0 \<le> fst h"
  shows "build_results metadata hits
           = Inr (map (\<lambda>h. make_result (metadata ! nat (fst h)) (snd h))
                      (valid_hits metadata hits))"
  using assms
proof (induction hits)
  case Nil
  then show ?case by (simp add: valid_hits_def)
next
  case (Cons h hits)
  obtain idx s where h: "h = (idx, s)" by (cases h)
  from Cons have ih: "build_results metadata hits
           = Inr (map (\<lambda>h. make_result (metadata ! nat (fst h)) (snd h))
                      (valid_hits metadata hits))" and nn: "0 \<le> idx"
    by (simp_all add: h)
  show ?case using nn by (simp add: h ih valid_hits_def py_index_def)
qed

lemma identity_make_result: "identity (make_result m s) = record_identity m"
  by (simp add: identity_def record_identity_def make_result_def)

lemma search_gita_valid_hits:
  assumes nn: "\<forall>h \<in> set (index_search (enhance_query_contextual query) top_k). 0 \<le> fst h"
    and di: "distinct (map fst (valid_hits metadata
                                  (index_search (enhance_query_contextual query) top_k)))"
    and dm: "distinct (map record_identity metadata)"
  shows "\<exists>rs. search_gita index_search metadata query top_k fp = Inr rs
              \<and> length rs \<le> 5 \<and> distinct (map identity rs)"
proof -
  let ?hits = "index_search (enhance_query_contextual query) top_k"
  let ?retrieved = "map (\<lambda>h. make_result (metadata ! nat (fst h)) (snd h))
                        (valid_hits metadata ?hits)"
  have b: "build_results metadata ?hits = Inr ?retrieved"
    using nn by (rule build_results_nonneg)
  have r: "map identity ?retrieved
             = map (\<lambda>i. map record_identity metadata ! nat i) (map fst (valid_hits metadata ?hits))"
    using nn by (auto simp: identity_make_result valid_hits_def)
  have "inj_on (\<lambda>i. map record_identity metadata ! nat i)
               (set (map fst (valid_hits metadata ?hits)))"
  proof (rule inj_onI)
    fix i j
    assume i: "i \<in> set (map fst (valid_hits metadata ?hits))"
      and j: "j \<in> set (map fst (valid_hits metadata ?hits))"
      and e: "map record_identity metadata ! nat i = map record_identity metadata ! nat j"
    from i j nn have "0 \<le> i" "i < int (length metadata)" "0 \<le> j" "j < int (length metadata)"
      by (auto simp: valid_hits_def)
    then have "nat i < length (map record_identity metadata)"
      "nat j < length (map record_identity metadata)" by simp_all
    with dm e have "nat i = nat j" by (simp only: nth_eq_iff_index_eq)
    with \<open>0 \<le> i\<close> \<open>0 \<le> j\<close> show "i = j" by simp
  qed
  with di have "distinct (map (\<lambda>i. map record_identity metadata ! nat i)
                             (map fst (valid_hits metadata ?hits)))"
    using distinct_map [of "\<lambda>i. map record_identity metadata ! nat i"
                           "map fst (valid_hits metadata ?hits)"] by blast
  then have "distinct (map identity ?retrieved)"
    by (simp only: r)
  then have "distinct (map identity (adjust_all ?retrieved query))"
    by (simp add: adjust_all_spec identity_spec_adjust o_def)
  then have "distinct (map identity (sort_desc adjusted_key
               (select_results fp (sort_desc adjusted_key (adjust_all ?retrieved query)))))"
    by (simp add: distinct_map_sort_desc distinct_map_select_results)
  moreover have "length (sort_desc adjusted_key
               (select_results fp (sort_desc adjusted_key (adjust_all ?retrieved query)))) \<le> 5"
    by (simp add: length_sort_desc length_select_results)
  ultimately show ?thesis
    using search_gita_eq [of metadata index_search query top_k ?retrieved fp] b by simp
qed

lemma sentinel_build:
  "build_results single_corpus (sentinel_search q k)
     = Inr [make_result (plain_record 2 47 True) lowest_score]"
  "build_results [] (sentinel_search q k) = Inl IndexError"
  by (simp_all add: sentinel_search_def single_corpus_def py_index_def)

lemma padded_build:
  "build_results single_corpus (padded_search q k)
     = Inr [make_result (plain_record 2 47 True) 0.62,
            make_result (plain_record 2 47 True) lowest_score]"
  by (simp add: padded_search_def single_corpus_def py_index_def)

lemma lowest_score_less: "lowest_score < 0.62"
  by (simp add: lowest_score_def)

text \<open>
  C2 at the record index \<open>-1\<close>. The range check \<open>idx >= len(metadata)\<close> lets a negative
  index pass, and \<open>metadata[-1]\<close> is the last record of the corpus: over a corpus of one
  verse the hit is returned as that verse, and over an empty corpus the search raises
  \<open>IndexError\<close>.
\<close>

theorem sentinel_index_not_dropped:
  "search_gita sentinel_search single_corpus ''hello'' 1 True
     = Inr [unwarned (plain_record 2 47 True) lowest_score]
   \<and> search_gita sentinel_search [] ''hello'' 1 True = Inl IndexError"
  by (simp add: search_gita_def Let_def sentinel_build
      filter_context_specific_verses_eq adjust_all_spec spec_adjust_plain sort_desc_def
      select_results_def ideal_unwarned)

text \<open>
  C6 at a corpus of one verse searched with \<open>k = 2\<close>: the index reports record 0 and fills
  the second place with \<open>-1\<close>; the result holds the one verse twice.
\<close>

theorem sentinel_index_duplicates_verse:
  "search_gita padded_search single_corpus ''hello'' 2 True
     = Inr [unwarned (plain_record 2 47 True) 0.62,
            unwarned (plain_record 2 47 True) lowest_score]
   \<and> identity (unwarned (plain_record 2 47 True) 0.62)
       = identity (unwarned (plain_record 2 47 True) lowest_score)"
proof -
  have c: "filter_context_specific_verses
             [make_result (plain_record 2 47 True) 0.62,
              make_result (plain_record 2 47 True) lowest_score] ''hello''
           = Inr [unwarned (plain_record 2 47 True) 0.62,
                  unwarned (plain_record 2 47 True) lowest_score]"
    using lowest_score_less
    by (simp add: filter_context_specific_verses_eq adjust_all_spec spec_adjust_plain
        sort_desc_def adjusted_key_unwarned)
  have s: "select_results True [unwarned (plain_record 2 47 True) 0.62,
                  unwarned (plain_record 2 47 True) lowest_score]
           = [unwarned (plain_record 2 47 True) 0.62,
              unwarned (plain_record 2 47 True) lowest_score]"
    unfolding select_results_def Let_def filter_not_in_ideal
    by (simp add: ideal_unwarned)
  have i: "identity (unwarned (plain_record 2 47 True) 0.62)
       = identity (unwarned (plain_record 2 47 True) lowest_score)"
    by (simp add: identity_def unwarned_def make_result_def plain_record_def)
  have "search_gita padded_search single_corpus ''hello'' 2 True
     = Inr (sort_desc adjusted_key [unwarned (plain_record 2 47 True) 0.62,
                                   unwarned (plain_record 2 47 True) lowest_score])"
    unfolding search_gita_def Let_def padded_build sum.case c s by simp
  then show ?thesis
    using lowest_score_less i by (simp add: sort_desc_def adjusted_key_unwarned)
qed

section \<open>Suitability reranking\<close>

lemma rank_verse_key:
  "suitability_score (rank_verse g f v) = Some (suitability_key (rank_verse g f v))"
  by (simp add: rank_verse_def suitability_key_def Let_def)

lemma rank_verses_by_suitability_eq:
  "rank_verses_by_suitability verses q = Inr (sort_desc suitability_key (rank_all verses q))"
  unfolding rank_verses_by_suitability_def Let_def rank_all_def
  by (rule sort_desc_required_total) (auto simp: rank_verse_key)

lemma rank_all_spec: "rank_all verses q = map (spec_rerank q) verses"
  by (simp add: rank_all_def rank_verse_def spec_rerank_def spec_suitability_def
      before_universal_def Let_def is_grief_query_def is_confrontation_query_def
      adjusted_key_def)

lemma rank_single:
  "rank_verses_by_suitability [v] q = Inr [spec_rerank q v]"
  by (simp add: rank_verses_by_suitability_eq rank_all_spec sort_desc_def)

lemma is_universal_detect: "is_universal (detect_verse_context t)"
  by (simp add: detect_verse_context_def Let_def)

lemma spec_rerank_fields:
  "english (spec_rerank q v) = english v"
  "score (spec_rerank q v) = score v"
  "adjusted_key (spec_rerank q v) = adjusted_key v"
  "suitability_score (spec_rerank q v)
     = Some (fmul (before_universal (is_grief_query q) (is_confrontation_query q)
                     (detect_verse_context (english v)) (adjusted_key v)) (py_float 1.1))"
  by (simp_all add: spec_rerank_def adjusted_key_def spec_suitability_def is_universal_detect
      split: option.splits)

lemmas rerank_kw_defs = any_in_def py_lower_def lower_char_def battlefield_keywords_def
  death_keywords_def devotional_keywords_def cosmic_keywords_def universal_keywords_def
  grief_words_def confrontation_query_words_def

lemma detect_death_verse: "detect_verse_context (english death_verse) = death_flags"
  by (simp add: detect_verse_context_def death_verse_def death_flags_def Let_def rerank_kw_defs)

lemma detect_inner_war_verse: "detect_verse_context (english inner_war_verse) = plain_flags"
  by (simp add: detect_verse_context_def inner_war_verse_def plain_flags_def Let_def
      rerank_kw_defs)

lemma detect_death_warrior_verse:
  "detect_verse_context (english death_warrior_verse) = death_warrior_flags"
  by (simp add: detect_verse_context_def death_warrior_verse_def death_warrior_flags_def Let_def
      rerank_kw_defs)

lemma grief_query_class:
  "is_grief_query grief_query" "\<not> is_confrontation_query grief_query"
  by (simp_all add: is_grief_query_def is_confrontation_query_def grief_query_def rerank_kw_defs)

lemma rank_plain:
  "rank_verse g f (unwarned (plain_record c n p) s)
     = (unwarned (plain_record c n p) s)\<lparr>suitability_score := Some (fmul s (py_float 1.1)),
                                         context_flags := Some plain_flags\<rparr>"
  by (simp add: rank_verse_def Let_def detect_verse_context_def unwarned_def make_result_def
      plain_record_def adjusted_key_def plain_flags_def rerank_kw_defs)

text \<open>
  The three candidates of Scenario C are what the adjuster makes, under the grief query,
  of retrieved candidates with the raw scores 0.625, 0.5 and 0.6666666666666666.
\<close>

lemma grief_query_adjuster_class:
  "\<not> social_concern grief_query" "\<not> confrontation grief_query"
  "\<not> existential (categorize_problem grief_query)"
  by (simp_all add: social_concern_def confrontation_def grief_query_def kw_defs Let_def)

lemma scenario_c_candidates_from_adjuster:
  "filter_context_specific_verses
     [death_verse\<lparr>context_warning := None, relevance_adjusted := None\<rparr>] grief_query
     = Inr [death_verse]"
  "filter_context_specific_verses
     [inner_war_verse\<lparr>context_warning := None, relevance_adjusted := None\<rparr>] grief_query
     = Inr [inner_war_verse]"
  "filter_context_specific_verses
     [death_warrior_verse\<lparr>context_warning := None, relevance_adjusted := None\<rparr>] grief_query
     = Inr [death_warrior_verse]"
proof -
  have d: "spec_adjust grief_query (death_verse\<lparr>context_warning := None, relevance_adjusted := None\<rparr>)
        = death_verse\<lparr>context_warning := Some Death_rebirth,
            relevance_adjusted := Some (fmul 0.625 (py_float 0.80))\<rparr>"
    using grief_query_adjuster_class
    by (simp add: spec_adjust_def) 
       (simp add: death_verse_def battlefield_flagged_def death_focused_def kw_defs)
  have i: "spec_adjust grief_query (inner_war_verse\<lparr>context_warning := None, relevance_adjusted := None\<rparr>)
        = inner_war_verse\<lparr>context_warning := Some Battlefield,
            relevance_adjusted := Some (fmul 0.5 (py_float 0.75))\<rparr>"
    using grief_query_adjuster_class
    by (simp add: spec_adjust_def) 
       (simp add: inner_war_verse_def battlefield_flagged_def kw_defs)
  have w: "spec_adjust grief_query (death_warrior_verse\<lparr>context_warning := None, relevance_adjusted := None\<rparr>)
        = death_warrior_verse\<lparr>context_warning := Some Battlefield,
            relevance_adjusted := Some (fmul (6004799503160661 / 2 ^ 53) (py_float 0.75))\<rparr>"
    using grief_query_adjuster_class
    by (simp add: spec_adjust_def) 
       (simp add: death_warrior_verse_def battlefield_flagged_def kw_defs)
  show "filter_context_specific_verses
     [death_verse\<lparr>context_warning := None, relevance_adjusted := None\<rparr>] grief_query
     = Inr [death_verse]"
    unfolding filter_context_specific_verses_eq adjust_all_spec list.map d fmul_0625_080
    by (simp add: sort_desc_def death_verse_def)
  show "filter_context_specific_verses
     [inner_war_verse\<lparr>context_warning := None, relevance_adjusted := None\<rparr>] grief_query
     = Inr [inner_war_verse]"
    unfolding filter_context_specific_verses_eq adjust_all_spec list.map i fmul_05_075
    by (simp add: sort_desc_def inner_war_verse_def)
  show "filter_context_specific_verses
     [death_warrior_verse\<lparr>context_warning := None, relevance_adjusted := None\<rparr>] grief_query
     = Inr [death_warrior_verse]"
    unfolding filter_context_specific_verses_eq adjust_all_spec list.map w fmul_two_thirds_075
    by (simp add: sort_desc_def death_warrior_verse_def)
qed

text \<open>
  C8, as the code has it. The reranker always returns. It computes the suitability score
  of every candidate from its adjusted score (\<open>relevance_adjusted\<close>, or the raw score when
  that key is absent) by the cumulative float factors 1.2 (death-focused, grief query),
  0.7 (death-focused, no grief query), 1.1 (battlefield, confrontation query), 0.8
  (battlefield, no confrontation query) and 1.1 (universal), and sorts by suitability
  score, descending. A candidate that is neither death-focused nor battlefield-flagged gets
  its adjusted score times the universal factor 1.1. A death-focused candidate that is not
  battlefield-flagged, with adjusted score 0.50 under a grief query, gets 0.60 times the
  universal factor 1.1, which is 0.66.
\<close>

theorem suitability_factors:
  "rank_verses_by_suitability verses q
     = Inr (sort_desc suitability_key (map (spec_rerank q) verses))
   \<and> (\<not> is_death_focused (detect_verse_context (english v))
        \<and> \<not> is_battlefield (detect_verse_context (english v))
      \<longrightarrow> rank_verses_by_suitability [v] q
            = Inr [v\<lparr>suitability_score :=
                        Some (fmul (case relevance_adjusted v of Some a \<Rightarrow> a
                                    | None \<Rightarrow> score v) (py_float 1.1)),
                      context_flags := Some (detect_verse_context (english v))\<rparr>])
   \<and> (is_death_focused (detect_verse_context (english v))
        \<and> \<not> is_battlefield (detect_verse_context (english v))
        \<and> is_grief_query q \<and> relevance_adjusted v = Some 0.50
      \<longrightarrow> fmul 0.50 (py_float 1.2) = py_float 0.60
          \<and> rank_verses_by_suitability [v] q
            = Inr [v\<lparr>suitability_score := Some (fmul (py_float 0.60) (py_float 1.1)),
                      context_flags := Some (detect_verse_context (english v))\<rparr>])"
proof (intro conjI impI)
  show "rank_verses_by_suitability verses q
     = Inr (sort_desc suitability_key (map (spec_rerank q) verses))"
    by (simp add: rank_verses_by_suitability_eq rank_all_spec)
next
  assume "\<not> is_death_focused (detect_verse_context (english v))
        \<and> \<not> is_battlefield (detect_verse_context (english v))"
  then show "rank_verses_by_suitability [v] q
            = Inr [v\<lparr>suitability_score :=
                        Some (fmul (case relevance_adjusted v of Some a \<Rightarrow> a
                                    | None \<Rightarrow> score v) (py_float 1.1)),
                      context_flags := Some (detect_verse_context (english v))\<rparr>]"
    unfolding rank_single
    by (simp add: spec_rerank_def spec_suitability_def before_universal_def is_universal_detect)
next
  assume a: "is_death_focused (detect_verse_context (english v))
        \<and> \<not> is_battlefield (detect_verse_context (english v))
        \<and> is_grief_query q \<and> relevance_adjusted v = Some 0.50"
  show "fmul 0.50 (py_float 1.2) = py_float 0.60" by (rule fmul_05_12)
  have "spec_suitability (is_grief_query q) (is_confrontation_query q)
           (detect_verse_context (english v)) 0.50
          = fmul (fmul 0.50 (py_float 1.2)) (py_float 1.1)"
    using a by (simp add: spec_suitability_def before_universal_def is_universal_detect)
  then have "spec_rerank q v
          = v\<lparr>suitability_score := Some (fmul (fmul 0.50 (py_float 1.2)) (py_float 1.1)),
               context_flags := Some (detect_verse_context (english v))\<rparr>"
    using a by (simp add: spec_rerank_def)
  then show "rank_verses_by_suitability [v] q
            = Inr [v\<lparr>suitability_score := Some (fmul (py_float 0.60) (py_float 1.1)),
                      context_flags := Some (detect_verse_context (english v))\<rparr>]"
    unfolding rank_single fmul_05_12 by simp
qed

theorem suitability_factors_witness:
  "is_death_focused (detect_verse_context (english death_verse))
   \<and> \<not> is_battlefield (detect_verse_context (english death_verse))
   \<and> is_grief_query grief_query
   \<and> score death_verse = 0.625 \<and> relevance_adjusted death_verse = Some 0.50
   \<and> rank_verses_by_suitability [death_verse] grief_query
       = Inr [death_verse\<lparr>suitability_score := Some (5944751508129055 / 2 ^ 53),
                            context_flags := Some death_flags\<rparr>]
   \<and> py_float 0.66 = 5944751508129055 / 2 ^ 53
   \<and> \<not> is_death_focused (detect_verse_context (english inner_war_verse))
   \<and> \<not> is_battlefield (detect_verse_context (english inner_war_verse))
   \<and> score inner_war_verse = 0.5 \<and> relevance_adjusted inner_war_verse = Some 0.375
   \<and> rank_verses_by_suitability [inner_war_verse] grief_query
       = Inr [inner_war_verse\<lparr>suitability_score := Some (7430939385161319 / 2 ^ 54),
                                context_flags := Some plain_flags\<rparr>]"
proof -
  have d: "is_death_focused (detect_verse_context (english death_verse))
           \<and> \<not> is_battlefield (detect_verse_context (english death_verse))
           \<and> is_grief_query grief_query \<and> relevance_adjusted death_verse = Some 0.50"
    unfolding detect_death_verse using grief_query_class
    by (simp add: death_flags_def death_verse_def)
  have i: "\<not> is_death_focused (detect_verse_context (english inner_war_verse))
           \<and> \<not> is_battlefield (detect_verse_context (english inner_war_verse))"
    unfolding detect_inner_war_verse by (simp add: plain_flags_def)
  have ia: "(case relevance_adjusted inner_war_verse of Some a \<Rightarrow> a
             | None \<Rightarrow> score inner_war_verse) = 0.375"
    by (simp add: inner_war_verse_def)
  have s: "score death_verse = 0.625" "score inner_war_verse = 0.5"
    "relevance_adjusted inner_war_verse = Some 0.375"
    by (simp_all add: death_verse_def inner_war_verse_def)
  from suitability_factors [of "[]" grief_query death_verse] d
  have 1: "rank_verses_by_suitability [death_verse] grief_query
       = Inr [death_verse\<lparr>suitability_score := Some (5944751508129055 / 2 ^ 53),
                            context_flags := Some death_flags\<rparr>]"
    unfolding detect_death_verse fmul_06_11 by blast
  from suitability_factors [of "[]" grief_query inner_war_verse] i
  have 2: "rank_verses_by_suitability [inner_war_verse] grief_query
       = Inr [inner_war_verse\<lparr>suitability_score := Some (7430939385161319 / 2 ^ 54),
                                context_flags := Some plain_flags\<rparr>]"
    unfolding detect_inner_war_verse ia fmul_0375_11 by blast
  show ?thesis using d i s 1 2 py_float_066 by blast
qed

text \<open>
  C8 does not hold for every death-focused candidate: one that is battlefield-flagged as
  well, with adjusted score 0.50 under a grief query that is no confrontation query, gets
  the battlefield factor 0.8 too. Its suitability score is 0.528, neither 0.60 nor 0.60
  times the universal factor.
\<close>

theorem death_and_battlefield_counterexample:
  "is_death_focused (detect_verse_context (english death_warrior_verse))
   \<and> is_grief_query grief_query
   \<and> relevance_adjusted death_warrior_verse = Some 0.50
   \<and> rank_verses_by_suitability [death_warrior_verse] grief_query
       = Inr [death_warrior_verse\<lparr>suitability_score := Some (1188950301625811 / 2 ^ 51),
                                    context_flags := Some death_warrior_flags\<rparr>]
   \<and> fmul (py_float 0.60) (py_float 1.1) = 5944751508129055 / 2 ^ 53
   \<and> (1188950301625811 / 2 ^ 51 :: real) \<noteq> 5944751508129055 / 2 ^ 53
   \<and> py_float 0.60 = 5404319552844595 / 2 ^ 53
   \<and> (1188950301625811 / 2 ^ 51 :: real) \<noteq> 5404319552844595 / 2 ^ 53"
proof -
  have f: "is_death_focused (detect_verse_context (english death_warrior_verse))"
    unfolding detect_death_warrior_verse by (simp add: death_warrior_flags_def)
  have a: "relevance_adjusted death_warrior_verse = Some 0.50"
    by (simp add: death_warrior_verse_def)
  have "spec_suitability (is_grief_query grief_query) (is_confrontation_query grief_query)
           death_warrior_flags 0.50
          = fmul (fmul (fmul 0.50 (py_float 1.2)) (py_float 0.8)) (py_float 1.1)"
    using grief_query_class
    by (simp add: spec_suitability_def before_universal_def death_warrior_flags_def)
  then have "spec_suitability (is_grief_query grief_query) (is_confrontation_query grief_query)
           death_warrior_flags 0.50 = 1188950301625811 / 2 ^ 51"
    unfolding fmul_05_12 fmul_06_08 fmul_048_11 .
  then have r: "spec_rerank grief_query death_warrior_verse
          = death_warrior_verse\<lparr>suitability_score := Some (1188950301625811 / 2 ^ 51),
                                   context_flags := Some death_warrior_flags\<rparr>"
    unfolding spec_rerank_def detect_death_warrior_verse a by simp
  have "rank_verses_by_suitability [death_warrior_verse] grief_query
       = Inr [death_warrior_verse\<lparr>suitability_score := Some (1188950301625811 / 2 ^ 51),
                                    context_flags := Some death_warrior_flags\<rparr>]"
    unfolding rank_single r ..
  moreover have "(1188950301625811 / 2 ^ 51 :: real) \<noteq> 5944751508129055 / 2 ^ 53"
    "(1188950301625811 / 2 ^ 51 :: real) \<noteq> 5404319552844595 / 2 ^ 53" by simp_all
  ultimately show ?thesis
    using f a grief_query_class(1) fmul_06_11 py_float_060 by blast
qed

text \<open>
  A score of at least 0.30 that the adjuster has left alone or penalised is at least 0.2,
  and no chain of suitability factors takes a score of at least 0.2 back to itself.
\<close>

lemma adjusted_above_threshold:
  assumes "0.30 < score (spec_adjust q v)"
  shows "1 / 5 \<le> adjusted_key (spec_adjust q v)"
proof -
  have s: "0.30 < score v" using assms by (simp add: spec_adjust_cases(2))
  then have "1 / 10 \<le> score v" by simp
  from step_bounds(9,10) [OF this] s
  show ?thesis by (auto simp: spec_adjust_def adjusted_key_def)
qed

lemma suitability_differs:
  assumes a: "1 / 5 \<le> a" and u: "is_universal c"
  shows "spec_suitability g f c a \<noteq> a"
proof -
  define s1 where "s1 = (if is_death_focused c \<and> g then fmul a (py_float 1.2)
                         else if is_death_focused c \<and> \<not> g then fmul a (py_float 0.7) else a)"
  define s2 where "s2 = (if is_battlefield c \<and> f then fmul s1 (py_float 1.1)
                         else if is_battlefield c \<and> \<not> f then fmul s1 (py_float 0.8) else s1)"
  have e: "spec_suitability g f c a = fmul s2 (py_float 1.1)"
    using u by (auto simp: spec_suitability_def before_universal_def s1_def s2_def)
  have "1 / 10 \<le> a" using a by simp
  note ba = step_bounds(1-4) [OF this]
  have c1: "(1199 / 1000 * a \<le> s1 \<and> s1 \<le> 1201 / 1000 * a \<and> is_death_focused c \<and> g)
            \<or> (699 / 1000 * a \<le> s1 \<and> s1 \<le> 701 / 1000 * a \<and> is_death_focused c \<and> \<not> g)
            \<or> s1 = a"
    using ba by (auto simp: s1_def)
  then have "1 / 10 \<le> s1" using a by auto
  note b1 = step_bounds(5-8) [OF this]
  have c2: "(1099 / 1000 * s1 \<le> s2 \<and> s2 \<le> 1101 / 1000 * s1)
            \<or> (799 / 1000 * s1 \<le> s2 \<and> s2 \<le> 801 / 1000 * s1)
            \<or> s2 = s1"
    using b1 by (auto simp: s2_def)
  from c1 c2 have "1 / 10 \<le> s2" using a by (elim disjE conjE; linarith)
  note b2 = step_bounds(5,6) [OF this]
  from c1 c2 b2 a have "fmul s2 (py_float 1.1) \<noteq> a"
    by (elim disjE conjE; linarith)
  then show ?thesis by (simp add: e)
qed

lemma steady_build:
  "build_results single_corpus (steady_search q k)
     = Inr [make_result (plain_record 2 47 True) 0.625]"
  by (simp add: steady_search_def single_corpus_def py_index_def)

lemma steady_search_result:
  "search_gita steady_search single_corpus ''hello'' 1 True
     = Inr [unwarned (plain_record 2 47 True) 0.625]"
proof -
  have c: "filter_context_specific_verses [make_result (plain_record 2 47 True) 0.625] ''hello''
           = Inr [unwarned (plain_record 2 47 True) 0.625]"
    by (simp add: filter_context_specific_verses_eq adjust_all_spec spec_adjust_plain
        sort_desc_def)
  have s: "select_results True [unwarned (plain_record 2 47 True) 0.625]
           = [unwarned (plain_record 2 47 True) 0.625]"
    unfolding select_results_def Let_def filter_not_in_ideal
    by (simp add: ideal_unwarned)
  show ?thesis
    unfolding search_gita_def Let_def steady_build sum.case c s
    by (simp add: sort_desc_def)
qed

lemma rank_all_steady:
  "rank_all (filter (\<lambda>v. 0.30 < score v) [unwarned (plain_record 2 47 True) 0.625]) ''hello''
     = [(unwarned (plain_record 2 47 True) 0.625)\<lparr>suitability_score := Some (11 / 16),
           context_flags := Some plain_flags\<rparr>]"
proof -
  have f: "filter (\<lambda>v. 0.30 < score v) [unwarned (plain_record 2 47 True) 0.625]
             = [unwarned (plain_record 2 47 True) 0.625]"
    by (simp add: unwarned_def make_result_def)
  show ?thesis unfolding f rank_all_def list.map rank_plain fmul_0625_11 ..
qed

text \<open>
  C10. The context detector returns \<open>is_universal = True\<close> for every verse text. The
  reranker is called by \<open>reason_over_verses\<close> only, on the results of \<open>search_gita\<close> whose
  raw score is above 0.30. Every such candidate receives the universal factor 1.1 after
  the other multipliers, and its suitability score differs from its adjusted score: the
  other multipliers never cancel the factor.
\<close>

theorem universal_multiplier_always_applied:
  assumes "search_gita index_search metadata query top_k fp = Inr retrieved"
  shows "is_universal (detect_verse_context t)
   \<and> rank_verses_by_suitability (filter (\<lambda>v. 0.30 < score v) retrieved) problem
       = Inr (sort_desc suitability_key
                (rank_all (filter (\<lambda>v. 0.30 < score v) retrieved) problem))
   \<and> (\<forall>w \<in> set (rank_all (filter (\<lambda>v. 0.30 < score v) retrieved) problem).
         suitability_score w
           = Some (fmul (before_universal (is_grief_query problem)
                           (is_confrontation_query problem)
                           (detect_verse_context (english w)) (adjusted_key w))
                        (py_float 1.1))
         \<and> suitability_score w \<noteq> Some (adjusted_key w))"
proof -
  have "suitability_score w
           = Some (fmul (before_universal (is_grief_query problem)
                           (is_confrontation_query problem)
                           (detect_verse_context (english w)) (adjusted_key w))
                        (py_float 1.1))
         \<and> suitability_score w \<noteq> Some (adjusted_key w)"
    if "w \<in> set (rank_all (filter (\<lambda>v. 0.30 < score v) retrieved) problem)" for w
  proof -
    from that obtain r where w: "w = spec_rerank problem r"
      and r: "r \<in> set retrieved" "0.30 < score r"
      by (auto simp: rank_all_spec)
    from search_gita_members [OF assms r(1)] obtain v where v: "r = spec_adjust query v" ..
    from adjusted_above_threshold [of query v] r(2) have "1 / 5 \<le> adjusted_key r"
      by (simp add: v)
    from suitability_differs [OF this is_universal_detect]
    have "spec_suitability (is_grief_query problem) (is_confrontation_query problem)
            (detect_verse_context (english r)) (adjusted_key r) \<noteq> adjusted_key r" .
    then have "fmul (before_universal (is_grief_query problem) (is_confrontation_query problem)
                       (detect_verse_context (english r)) (adjusted_key r)) (py_float 1.1)
                 \<noteq> adjusted_key r"
      by (simp add: spec_suitability_def is_universal_detect)
    then show ?thesis unfolding w spec_rerank_fields by simp
  qed
  then show ?thesis using is_universal_detect rank_verses_by_suitability_eq by blast
qed

theorem universal_multiplier_always_applied_witness:
  "search_gita steady_search single_corpus ''hello'' 1 True
     = Inr [unwarned (plain_record 2 47 True) 0.625]
   \<and> is_universal (detect_verse_context ''act'')
   \<and> rank_all (filter (\<lambda>v. 0.30 < score v) [unwarned (plain_record 2 47 True) 0.625]) ''hello''
       = [(unwarned (plain_record 2 47 True) 0.625)\<lparr>suitability_score := Some (11 / 16),
             context_flags := Some plain_flags\<rparr>]
   \<and> adjusted_key ((unwarned (plain_record 2 47 True) 0.625)\<lparr>suitability_score := Some (11 / 16),
             context_flags := Some plain_flags\<rparr>) = 5 / 8
   \<and> Some (11 / 16 :: real) \<noteq> Some (5 / 8)"
proof -
  have k: "adjusted_key ((unwarned (plain_record 2 47 True) 0.625)\<lparr>suitability_score := Some (11 / 16),
             context_flags := Some plain_flags\<rparr>) = 5 / 8"
    by (simp add: adjusted_key_def unwarned_def)
  from universal_multiplier_always_applied [OF steady_search_result, of "''act''" "''hello''"]
  show ?thesis
    unfolding rank_all_steady using steady_search_result k by simp
qed

section \<open>The confidence gate\<close>

text \<open>
  C7. If no retrieved candidate has a raw score above 0.30, \<open>reason_over_verses\<close>
  returns the fixed "no highly relevant verses" response and does not call the text
  generator. If some candidate has, it returns what the generator yields for the (at
  most three, at least one) best-ranked candidates above the threshold.
\<close>

theorem confidence_gate:
  "(\<not> list_ex (\<lambda>v. 0.30 < score v) retrieved
      \<longrightarrow> reason_over_verses generate q retrieved = Inr (No_relevant_verses, None))
   \<and> (list_ex (\<lambda>v. 0.30 < score v) retrieved
      \<longrightarrow> reason_over_verses generate q retrieved
            = Inr (Generated (generate q
                     (take 3 (sort_desc suitability_key
                               (rank_all (filter (\<lambda>v. 0.30 < score v) retrieved) q)))),
                   Some (take 3 (sort_desc suitability_key
                               (rank_all (filter (\<lambda>v. 0.30 < score v) retrieved) q))))
          \<and> take 3 (sort_desc suitability_key
                      (rank_all (filter (\<lambda>v. 0.30 < score v) retrieved) q)) \<noteq> [])"
proof -
  have e: "(filter (\<lambda>v. 0.30 < score v) retrieved = []) = (\<not> list_ex (\<lambda>v. 0.30 < score v) retrieved)"
    by (simp add: filter_empty_conv list_ex_iff)
  have n: "take 3 (sort_desc suitability_key (rank_all xs q)) \<noteq> []" if "xs \<noteq> []" for xs
  proof -
    have "length (sort_desc suitability_key (rank_all xs q)) = length xs"
      by (simp add: length_sort_desc rank_all_def)
    with that have "sort_desc suitability_key (rank_all xs q) \<noteq> []" by auto
    then show ?thesis by simp
  qed
  show ?thesis
    using e n [of "filter (\<lambda>v. 0.30 < score v) retrieved"]
    by (simp add: reason_over_verses_def Let_def rank_verses_by_suitability_eq)
qed

theorem confidence_gate_witness:
  "\<not> list_ex (\<lambda>v. 0.30 < score v) [weak_verse]
   \<and> reason_over_verses (\<lambda>p vs. ''guidance'') ''hello'' [weak_verse]
       = Inr (No_relevant_verses, None)
   \<and> list_ex (\<lambda>v. 0.30 < score v) [weak_verse, strong_verse]
   \<and> reason_over_verses (\<lambda>p vs. ''guidance'') ''hello'' [weak_verse, strong_verse]
       = Inr (Generated ''guidance'',
              Some [strong_verse\<lparr>suitability_score := Some (fmul 0.62 (py_float 1.1)),
                                 context_flags := Some plain_flags\<rparr>])"
proof -
  have w: "\<not> list_ex (\<lambda>v. 0.30 < score v) [weak_verse]"
    by (simp add: weak_verse_def unwarned_def make_result_def)
  have s: "list_ex (\<lambda>v. 0.30 < score v) [weak_verse, strong_verse]"
    by (simp add: strong_verse_def unwarned_def make_result_def)
  have f: "filter (\<lambda>v. 0.30 < score v) [weak_verse, strong_verse] = [strong_verse]"
    by (simp add: weak_verse_def strong_verse_def unwarned_def make_result_def)
  have r: "take 3 (sort_desc suitability_key (rank_all [strong_verse] ''hello''))
             = [strong_verse\<lparr>suitability_score := Some (fmul 0.62 (py_float 1.1)),
                               context_flags := Some plain_flags\<rparr>]"
    by (simp add: rank_all_def strong_verse_def rank_plain sort_desc_def)
  from confidence_gate [of "[weak_verse]" "\<lambda>p vs. ''guidance''" "''hello''"]
    confidence_gate [of "[weak_verse, strong_verse]" "\<lambda>p vs. ''guidance''" "''hello''"]
    w s
  show ?thesis unfolding f r by simp
qed

end
